theory Spec2Isabelle
  imports Main "HOL-Library.Log_Nat"
begin

text \<open>
  A model of the Grid SDK command-line tool (\<open>src/index.ts\<close>): the amount validation
  and conversion, the authentication, balance and transfer flows, the menu and the check
  of the configuration.  The program state is the pair of module variables
  \<open>userSession\<close> and \<open>sessionSecrets\<close>.  A flow takes the state, what the user types
  and what each operation of the SDK answers, and returns the new state, the trace of what
  it printed and called, and how it ended.
\<close>

section \<open>JavaScript numbers\<close>

text \<open>
  A JavaScript number is an IEEE-754 double: not-a-number, plus or minus infinity, or a
  finite value.  A finite double is modelled by the rational it denotes; every operation
  rounds its exact result to the nearest double, ties to even, as the language requires.
  Negative zero is identified with zero: the program never divides by a computed zero and
  prints both as \<open>0\<close>.
\<close>

datatype jsnum = NaN | PInf | NInf | Fin rat

definition pow2 :: "int \<Rightarrow> rat" where
  "pow2 q = (if 0 \<le> q then 2 ^ nat q else 1 / 2 ^ nat (- q))"

text \<open>The binary exponent of a positive rational: \<open>2 ^ ilog2 x \<le> x < 2 ^ (ilog2 x + 1)\<close>.\<close>

definition ilog2 :: "rat \<Rightarrow> int" where
  "ilog2 x = (if 1 \<le> x then int (floorlog 2 (nat \<lfloor>x\<rfloor>)) - 1
              else - int (floorlog 2 (nat (\<lceil>1 / x\<rceil> - 1))))"

definition nearest_even :: "rat \<Rightarrow> int \<Rightarrow> int" where
  "nearest_even m f =
     (if m - of_int f < 1 / 2 then f
      else if 1 / 2 < m - of_int f then f + 1
      else if even f then f else f + 1)"

definition round_half_even :: "rat \<Rightarrow> int" where
  "round_half_even m = nearest_even m \<lfloor>m\<rfloor>"

text \<open>Rounding a positive rational to a multiple of \<open>2 ^ q\<close>.\<close>

definition round_at :: "rat \<Rightarrow> int \<Rightarrow> rat" where
  "round_at a q = of_int (round_half_even (a / pow2 q)) * pow2 q"

text \<open>
  A double has 53 significant bits and its unit in the last place is never below
  \<open>2 ^ - 1074\<close> (the subnormal range).
\<close>

definition round_pos :: "rat \<Rightarrow> rat" where
  "round_pos a = round_at a (max (ilog2 a - 52) (- 1074))"

definition overflow :: "bool \<Rightarrow> rat \<Rightarrow> jsnum" where
  "overflow neg r =
     (if 2 ^ 1024 \<le> r then (if neg then NInf else PInf)
      else Fin (if neg then - r else r))"

definition round_double :: "rat \<Rightarrow> jsnum" where
  "round_double x = (if x = 0 then Fin 0 else overflow (x < 0) (round_pos \<bar>x\<bar>))"

definition isNaN :: "jsnum \<Rightarrow> bool" where
  "isNaN x = (x = NaN)"

fun js_less :: "jsnum \<Rightarrow> jsnum \<Rightarrow> bool" where
  "js_less NaN y = False"
| "js_less x NaN = False"
| "js_less (Fin a) (Fin b) = (a < b)"
| "js_less x PInf = (x \<noteq> PInf)"
| "js_less PInf y = False"
| "js_less NInf y = (y \<noteq> NInf)"
| "js_less x NInf = False"

definition js_le :: "jsnum \<Rightarrow> jsnum \<Rightarrow> bool" where
  "js_le x y = (x \<noteq> NaN \<and> y \<noteq> NaN \<and> \<not> js_less y x)"

definition js_gt :: "jsnum \<Rightarrow> jsnum \<Rightarrow> bool" where
  "js_gt x y = js_less y x"

definition sign_of :: "jsnum \<Rightarrow> int" where
  "sign_of x = (case x of NaN \<Rightarrow> 0 | PInf \<Rightarrow> 1 | NInf \<Rightarrow> - 1 | Fin a \<Rightarrow> (if a = 0 then 0 else if 0 < a then 1 else - 1))"

definition inf_of_sign :: "int \<Rightarrow> jsnum" where
  "inf_of_sign s = (if s = 0 then NaN else if 0 < s then PInf else NInf)"

fun js_mul :: "jsnum \<Rightarrow> jsnum \<Rightarrow> jsnum" where
  "js_mul NaN y = NaN"
| "js_mul x NaN = NaN"
| "js_mul (Fin a) (Fin b) = round_double (a * b)"
| "js_mul x y = inf_of_sign (sign_of x * sign_of y)"

text \<open>Division; a zero divisor counts as positive zero.\<close>

fun js_div :: "jsnum \<Rightarrow> jsnum \<Rightarrow> jsnum" where
  "js_div NaN y = NaN"
| "js_div x NaN = NaN"
| "js_div (Fin a) (Fin b) = (if b = 0 then inf_of_sign (sign_of (Fin a)) else round_double (a / b))"
| "js_div (Fin a) y = Fin 0"
| "js_div x (Fin b) = inf_of_sign (sign_of x * (if b < 0 then - 1 else 1))"
| "js_div x y = NaN"

fun Math_floor :: "jsnum \<Rightarrow> jsnum" where
  "Math_floor (Fin a) = Fin (of_int \<lfloor>a\<rfloor>)"
| "Math_floor x = x"

section \<open>Strings and numeric literals\<close>

text \<open>
  Strings are lists of 8-bit characters.  \<open>isJsSpace\<close> holds of the white space and line
  terminators of the language in that range; \<open>trim\<close> is \<open>String.prototype.trim\<close>.
\<close>

definition isJsSpace :: "char \<Rightarrow> bool" where
  "isJsSpace c = (c \<in> set [CHR 0x09, CHR 0x0A, CHR 0x0B, CHR 0x0C, CHR 0x0D, CHR 0x20, CHR 0xA0])"

definition trimStart :: "string \<Rightarrow> string" where
  "trimStart s = dropWhile isJsSpace s"

definition trim :: "string \<Rightarrow> string" where
  "trim s = rev (dropWhile isJsSpace (rev (dropWhile isJsSpace s)))"

definition isDigit :: "char \<Rightarrow> bool" where
  "isDigit c = (c \<in> set ''0123456789'')"

definition digitVal :: "char \<Rightarrow> nat" where
  "digitVal c = of_char c - 48"

definition digitsVal :: "string \<Rightarrow> nat" where
  "digitsVal ds = foldl (\<lambda>n c. 10 * n + digitVal c) 0 ds"

fun strip_prefix :: "string \<Rightarrow> string \<Rightarrow> string option" where
  "strip_prefix [] s = Some s"
| "strip_prefix (p # ps) [] = None"
| "strip_prefix (p # ps) (c # cs) = (if p = c then strip_prefix ps cs else None)"

text \<open>
  The mathematical value of a decimal literal: infinite, or a rational.  The parsers return
  the value of the longest prefix that is a literal, and the rest of the string.
\<close>

datatype mv = MVInf | MVFin rat

text \<open>\<open>ExponentPart\<close>, optional: \<open>e\<close> or \<open>E\<close>, an optional sign, digits.\<close>

definition signedInteger :: "string \<Rightarrow> (int \<times> string) option" where
  "signedInteger s =
     (case s of
        [] \<Rightarrow> None
      | c # t \<Rightarrow>
          if c = CHR ''-'' then
            (if takeWhile isDigit t = [] then None
             else Some (- int (digitsVal (takeWhile isDigit t)), dropWhile isDigit t))
          else if c = CHR ''+'' then
            (if takeWhile isDigit t = [] then None
             else Some (int (digitsVal (takeWhile isDigit t)), dropWhile isDigit t))
          else
            (if takeWhile isDigit s = [] then None
             else Some (int (digitsVal (takeWhile isDigit s)), dropWhile isDigit s)))"

definition exponentPart :: "string \<Rightarrow> int \<times> string" where
  "exponentPart s =
     (case s of
        [] \<Rightarrow> (0, s)
      | c # t \<Rightarrow>
          if c = CHR ''e'' \<or> c = CHR ''E'' then
            (case signedInteger t of None \<Rightarrow> (0, s) | Some (ex, r) \<Rightarrow> (ex, r))
          else (0, s))"

text \<open>The fraction after the integer digits: a dot and the digits that follow it.\<close>

definition fractionPart :: "string \<Rightarrow> (string \<times> string) option" where
  "fractionPart s =
     (case s of
        [] \<Rightarrow> None
      | c # t \<Rightarrow> if c = CHR ''.'' then Some (takeWhile isDigit t, dropWhile isDigit t) else None)"

definition decimalValue :: "string \<Rightarrow> string \<Rightarrow> int \<Rightarrow> rat" where
  "decimalValue ip fp ex =
     (if 0 \<le> ex - int (length fp)
      then of_nat (digitsVal (ip @ fp)) * 10 ^ nat (ex - int (length fp))
      else of_nat (digitsVal (ip @ fp)) / 10 ^ nat (int (length fp) - ex))"

definition finishDecimal :: "string \<Rightarrow> string \<Rightarrow> string \<Rightarrow> (mv \<times> string) option" where
  "finishDecimal ip fp r =
     (if ip = [] \<and> fp = [] then None
      else Some (MVFin (decimalValue ip fp (fst (exponentPart r))), snd (exponentPart r)))"

definition strUnsignedDecimalLiteral :: "string \<Rightarrow> (mv \<times> string) option" where
  "strUnsignedDecimalLiteral s =
     (case strip_prefix ''Infinity'' s of
        Some r \<Rightarrow> Some (MVInf, r)
      | None \<Rightarrow>
          (case fractionPart (dropWhile isDigit s) of
             None \<Rightarrow> finishDecimal (takeWhile isDigit s) [] (dropWhile isDigit s)
           | Some (fp, r) \<Rightarrow> finishDecimal (takeWhile isDigit s) fp r))"

text \<open>
  The number value of a literal: its mathematical value, negated and rounded to the
  nearest double.  (For a literal of more than 20 significant digits the language lets an
  implementation round from the first 20 digits; the model rounds the exact value, as the
  common engines do.)
\<close>

definition numberValue :: "bool \<Rightarrow> mv \<Rightarrow> jsnum" where
  "numberValue neg v =
     (case v of
        MVInf \<Rightarrow> (if neg then NInf else PInf)
      | MVFin r \<Rightarrow> round_double (if neg then - r else r))"

definition strDecimalLiteral :: "string \<Rightarrow> (jsnum \<times> string) option" where
  "strDecimalLiteral s =
     (case s of
        [] \<Rightarrow> None
      | c # t \<Rightarrow>
          if c = CHR ''-'' then map_option (\<lambda>(v, r). (numberValue True v, r)) (strUnsignedDecimalLiteral t)
          else if c = CHR ''+'' then map_option (\<lambda>(v, r). (numberValue False v, r)) (strUnsignedDecimalLiteral t)
          else map_option (\<lambda>(v, r). (numberValue False v, r)) (strUnsignedDecimalLiteral s))"

text \<open>
  \<open>parseFloat\<close>: leading white space is skipped, the longest prefix that is a decimal
  literal is converted, and whatever follows it is ignored; \<open>NaN\<close> when there is no such
  prefix.
\<close>

definition parseFloat :: "string \<Rightarrow> jsnum" where
  "parseFloat s =
     (case strDecimalLiteral (trimStart s) of None \<Rightarrow> NaN | Some (x, r) \<Rightarrow> x)"

text \<open>
  \<open>Number(s)\<close> for a string: white space is trimmed on both sides, the empty string is
  0, and otherwise the whole string must be a numeric literal (decimal, or an unsigned
  binary, octal or hexadecimal integer).
\<close>

definition radixDigit :: "nat \<Rightarrow> char \<Rightarrow> nat option" where
  "radixDigit radix c =
     (if isDigit c then (if digitVal c < radix then Some (digitVal c) else None)
      else if c \<in> set ''abcdef'' \<and> radix = 16 then Some (of_char c - 87)
      else if c \<in> set ''ABCDEF'' \<and> radix = 16 then Some (of_char c - 55)
      else None)"

fun radixVal :: "nat \<Rightarrow> nat \<Rightarrow> string \<Rightarrow> nat option" where
  "radixVal radix acc [] = Some acc"
| "radixVal radix acc (c # cs) =
     (case radixDigit radix c of None \<Rightarrow> None | Some d \<Rightarrow> radixVal radix (radix * acc + d) cs)"

definition nonDecimalIntegerLiteral :: "string \<Rightarrow> nat option" where
  "nonDecimalIntegerLiteral s =
     (case s of
        z # x # d # ds \<Rightarrow>
          if z \<noteq> CHR ''0'' then None
          else if x = CHR ''x'' \<or> x = CHR ''X'' then radixVal 16 0 (d # ds)
          else if x = CHR ''o'' \<or> x = CHR ''O'' then radixVal 8 0 (d # ds)
          else if x = CHR ''b'' \<or> x = CHR ''B'' then radixVal 2 0 (d # ds)
          else None
      | _ \<Rightarrow> None)"

definition strNumericLiteral :: "string \<Rightarrow> jsnum" where
  "strNumericLiteral t =
     (case nonDecimalIntegerLiteral t of
        Some n \<Rightarrow> round_double (of_nat n)
      | None \<Rightarrow>
          (case strDecimalLiteral t of
             None \<Rightarrow> NaN
           | Some (x, r) \<Rightarrow> if r = [] then x else NaN))"

definition StringToNumber :: "string \<Rightarrow> jsnum" where
  "StringToNumber s = (if trim s = [] then Fin 0 else strNumericLiteral (trim s))"

section \<open>JavaScript values\<close>

text \<open>
  The session, the secrets and every response are of type \<open>any\<close>: values as
  \<open>JSON.parse\<close> produces them, and \<open>undefined\<close> for what is absent.  An object is the
  list of its own properties; the first entry for a key is the property.
\<close>

datatype jsval =
    JUndefined
  | JNull
  | JBool bool
  | JNum jsnum
  | JStr string
  | JArr "jsval list"
  | JObj "(string \<times> jsval) list"

fun truthy :: "jsval \<Rightarrow> bool" where
  "truthy JUndefined = False"
| "truthy JNull = False"
| "truthy (JBool b) = b"
| "truthy (JNum x) = (x \<noteq> NaN \<and> x \<noteq> Fin 0)"
| "truthy (JStr s) = (s \<noteq> [])"
| "truthy (JArr xs) = True"
| "truthy (JObj kvs) = True"

definition nullish :: "jsval \<Rightarrow> bool" where
  "nullish v = (v = JUndefined \<or> v = JNull)"

text \<open>\<open>a || b\<close>: the left operand when it is truthy, the right operand otherwise.\<close>

definition js_or :: "jsval \<Rightarrow> jsval \<Rightarrow> jsval" where
  "js_or a b = (if truthy a then a else b)"

text \<open>
  \<open>v.k\<close> on a value that is neither \<open>null\<close> nor \<open>undefined\<close>, for the property names
  the program reads; none of them is inherited from a prototype, so a primitive has none
  of them but \<open>length\<close>.
\<close>

fun get :: "jsval \<Rightarrow> string \<Rightarrow> jsval" where
  "get (JObj kvs) k = (case map_of kvs k of None \<Rightarrow> JUndefined | Some v \<Rightarrow> v)"
| "get (JArr xs) k = (if k = ''length'' then JNum (Fin (of_nat (length xs))) else JUndefined)"
| "get (JStr s) k = (if k = ''length'' then JNum (Fin (of_nat (length s))) else JUndefined)"
| "get v k = JUndefined"

text \<open>\<open>v?.k\<close>\<close>

definition optget :: "jsval \<Rightarrow> string \<Rightarrow> jsval" where
  "optget v k = (if nullish v then JUndefined else get v k)"

text \<open>
  \<open>Number(v)\<close>.  An object converts through its string form: a plain object gives
  \<open>NaN\<close>, an array the number of its joined elements, so an array of two or more
  elements (its string form has a comma) gives \<open>NaN\<close>.
\<close>

fun ToNumber :: "jsval \<Rightarrow> jsnum" where
  "ToNumber JUndefined = NaN"
| "ToNumber JNull = Fin 0"
| "ToNumber (JBool b) = Fin (if b then 1 else 0)"
| "ToNumber (JNum x) = x"
| "ToNumber (JStr s) = StringToNumber s"
| "ToNumber (JObj kvs) = NaN"
| "ToNumber (JArr []) = Fin 0"
| "ToNumber (JArr [x]) =
     (case x of
        JUndefined \<Rightarrow> Fin 0
      | JNull \<Rightarrow> Fin 0
      | JBool b \<Rightarrow> NaN
      | _ \<Rightarrow> ToNumber x)"
| "ToNumber (JArr (x # y # zs)) = NaN"

text \<open>\<open>String.prototype.includes\<close> and \<open>Array.prototype.includes\<close> with a string argument.\<close>

fun includesStr :: "string \<Rightarrow> string \<Rightarrow> bool" where
  "includesStr needle [] = (needle = [])"
| "includesStr needle (c # cs) =
     (strip_prefix needle (c # cs) \<noteq> None \<or> includesStr needle cs)"

section \<open>Errors, events and the program state\<close>

text \<open>
  What a \<open>catch\<close> block can receive: a value thrown by the SDK, the RPC client or the
  web3 library; the runtime's \<open>TypeError\<close> for a property read on \<open>null\<close> or
  \<open>undefined\<close> or a call of something that is not a function; an \<open>Error\<close> the
  program constructs (its message text, then the values interpolated after it).
\<close>

datatype thrown = Thrown jsval | TypeError | NewError string "jsval list"

datatype result = Throws jsval | Returns jsval

datatype tokenType = USDC | SOL

record payment_intent_request =
  amount :: jsnum
  grid_user_id :: jsval
  source_account :: jsval
  source_currency :: string
  source_payment_rail :: string
  destination_address :: string
  destination_currency :: string
  destination_payment_rail :: string

record raw_transaction =
  fromPubkey :: jsval
  toPubkey :: string
  lamports :: jsnum
  recentBlockhash :: jsval
  feePayer :: jsval

text \<open>The operations of \<open>gridClient\<close> and \<open>solanaConnection\<close>, with their arguments.\<close>

datatype call =
    InitAuth string
  | CreateAccount string
  | GenerateSessionSecrets
  | CompleteAuth string jsval jsval
  | CompleteAuthAndCreateAccount string jsval jsval
  | GetAccountBalances jsval
  | CreatePaymentIntent jsval payment_intent_request
  | Sign jsval jsval jsval
  | Send jsval jsval
  | GetLatestBlockhash
  | PrepareArbitraryTransaction jsval raw_transaction
  | SignAndSend jsval jsval jsval jsval

text \<open>
  A printed line is a list of parts: literal text, an interpolated value, an error, or
  a string in upper case.  Emoji that start a message are left out.
\<close>

datatype part = Txt string | Val jsval | Err thrown | Upper string

datatype event =
    ConsoleLog "part list"
  | ConsoleError "part list"
  | Prompt string
  | Rejected "string option"
  | Call call
  | NewGridClient string string string
  | NewConnection string

text \<open>How a flow ends: it returns to its caller, an exception escapes it, a prompt is
  still waiting for an input it accepts, or \<open>process.exit\<close> ended the process with a code.\<close>

datatype completion = Returned | Uncaught thrown | AwaitingInput | Exited nat

record state =
  userSession :: jsval
  sessionSecrets :: jsval

definition initial_state :: state where
  "initial_state = \<lparr>userSession = JNull, sessionSecrets = JNull\<rparr>"

text \<open>
  The configuration constants, and what the program takes from its surroundings: the two
  operations of the web3 library whose failure it can observe, \<open>new PublicKey(v)\<close> and
  \<open>transaction.serialize(...)\<close> (\<open>None\<close>: no exception), and the value the runtime
  gives \<open>Math.pow(10, e)\<close> at a finite exponent where the language leaves the result
  implementation-approximated.
\<close>

record ctx =
  DEBUG_MODE :: bool
  GRID_ENVIRONMENT :: string
  PublicKey_error :: "jsval \<Rightarrow> thrown option"
  serialize_error :: "raw_transaction \<Rightarrow> thrown option"
  pow10_approx :: "rat \<Rightarrow> jsnum"

definition LAMPORTS_PER_SOL :: jsnum where
  "LAMPORTS_PER_SOL = Fin 1000000000"

section \<open>Utility functions\<close>

definition simpleLog :: "ctx \<Rightarrow> part list \<Rightarrow> event list" where
  "simpleLog c msg = (if DEBUG_MODE c then [] else [ConsoleLog msg])"

text \<open>
  \<open>debugLog\<close> and the blocks guarded by \<open>DEBUG_MODE\<close> only print: they call no
  operation and assign no variable, and their output is not recorded.  They read no
  property that the surrounding code does not read at the same point, except in the two
  inner \<open>catch\<close> blocks of \<open>transferSOLArbitrary\<close> (see \<open>rethrown\<close>).
\<close>

definition cluster :: "ctx \<Rightarrow> string" where
  "cluster c = (if GRID_ENVIRONMENT c = ''sandbox'' then ''devnet'' else ''mainnet-beta'')"

definition getExplorerUrl :: "ctx \<Rightarrow> jsval \<Rightarrow> part list" where
  "getExplorerUrl c signature =
     [Txt ''https://explorer.solana.com/tx/'', Val signature, Txt ''?cluster='', Txt (cluster c)]"

definition validateSolanaAddress :: "ctx \<Rightarrow> string \<Rightarrow> bool" where
  "validateSolanaAddress c address = (PublicKey_error c (JStr address) = None)"

record validation =
  valid :: bool
  error :: "string option"

definition validateAmount :: "string \<Rightarrow> tokenType \<Rightarrow> validation" where
  "validateAmount amt tokenType =
     (if isNaN (parseFloat amt) then
        \<lparr>valid = False, error = Some ''Please enter a valid number''\<rparr>
      else if js_le (parseFloat amt) (Fin 0) then
        \<lparr>valid = False, error = Some ''Amount must be greater than 0''\<rparr>
      else if tokenType = USDC \<and> js_gt (parseFloat amt) (Fin 1000000) then
        \<lparr>valid = False, error = Some ''USDC amount too large (max: 1,000,000)''\<rparr>
      else if tokenType = SOL \<and> js_gt (parseFloat amt) (Fin 10000) then
        \<lparr>valid = False, error = Some ''SOL amount too large (max: 10,000)''\<rparr>
      else \<lparr>valid = True, error = None\<rparr>)"

section \<open>Prompts\<close>

text \<open>
  A \<open>validate\<close> function of a prompt answers \<open>true\<close> or a message.  The prompt shows
  the message and asks again until an input is accepted: given the lines the user types,
  it returns the first accepted one, and \<open>None\<close> while it is still waiting.
\<close>

datatype verdict = Accept | Reject "string option"

fun promptInput :: "(string \<Rightarrow> verdict) \<Rightarrow> string list \<Rightarrow> event list \<times> string option" where
  "promptInput validate [] = ([], None)"
| "promptInput validate (x # xs) =
     (case validate x of
        Accept \<Rightarrow> ([], Some x)
      | Reject m \<Rightarrow> (Rejected m # fst (promptInput validate xs), snd (promptInput validate xs)))"

definition addressValidate :: "ctx \<Rightarrow> string \<Rightarrow> verdict" where
  "addressValidate c input =
     (if trim input = [] then Reject (Some ''Please enter a recipient address'')
      else if \<not> validateSolanaAddress c (trim input) then
        Reject (Some ''Please enter a valid Solana address'')
      else Accept)"

definition amountValidate :: "tokenType \<Rightarrow> string \<Rightarrow> verdict" where
  "amountValidate tokenType input =
     (if trim input = [] then Reject (Some ''Please enter an amount'')
      else if valid (validateAmount (trim input) tokenType) then Accept
      else Reject (error (validateAmount (trim input) tokenType)))"

section \<open>Authentication\<close>

record otp_io =
  otp :: string
  generateSessionSecrets_result :: result
  completeAuth_result :: result

definition accountAddressOf :: "jsval \<Rightarrow> jsval" where
  "accountAddressOf session = js_or (get session ''smart_account_address'') (get session ''address'')"

definition minimalUser :: "string \<Rightarrow> jsval" where
  "minimalUser email = JObj [(''email'', JStr email), (''signers'', JArr [])]"

definition otpFailed :: "thrown \<Rightarrow> event list" where
  "otpFailed e =
     [ConsoleError [Txt ''OTP verification failed:'', Err e],
      ConsoleError [Txt ''Error details:'', Err e]]"

definition sessionCreated :: "ctx \<Rightarrow> jsval \<Rightarrow> event list" where
  "sessionCreated c session =
     simpleLog c [Txt ''Login successful!'']
     @ (if truthy (accountAddressOf session)
        then simpleLog c [Txt ''Account: '', Val (accountAddressOf session)] else [])"

definition completeCall :: "bool \<Rightarrow> string \<Rightarrow> string \<Rightarrow> jsval \<Rightarrow> jsval \<Rightarrow> call" where
  "completeCall isNewUser email code secrets session =
     (if isNewUser then CompleteAuthAndCreateAccount code secrets (minimalUser email)
      else CompleteAuth code secrets (js_or session (minimalUser email)))"

definition verifyOtp :: "ctx \<Rightarrow> string \<Rightarrow> bool \<Rightarrow> state \<Rightarrow> otp_io \<Rightarrow> state \<times> event list" where
  "verifyOtp c email isNewUser st io =
     (case generateSessionSecrets_result io of
        Throws e \<Rightarrow>
          (st, [Prompt ''Enter the OTP from your email:'', Call GenerateSessionSecrets]
               @ otpFailed (Thrown e))
      | Returns secrets \<Rightarrow>
          (case completeAuth_result io of
             Throws e \<Rightarrow>
               (st\<lparr>sessionSecrets := secrets\<rparr>,
                [Prompt ''Enter the OTP from your email:'', Call GenerateSessionSecrets,
                 Call (completeCall isNewUser email (otp io) secrets (userSession st))]
                @ otpFailed (Thrown e))
           | Returns authResponse \<Rightarrow>
               if truthy authResponse then
                 (st\<lparr>sessionSecrets := secrets, userSession := authResponse\<rparr>,
                  [Prompt ''Enter the OTP from your email:'', Call GenerateSessionSecrets,
                   Call (completeCall isNewUser email (otp io) secrets (userSession st)),
                   ConsoleLog [Txt (if isNewUser then ''Registration successful!''
                                    else ''Login successful!'')]]
                  @ sessionCreated c authResponse)
               else
                 (st\<lparr>sessionSecrets := secrets\<rparr>,
                  [Prompt ''Enter the OTP from your email:'', Call GenerateSessionSecrets,
                   Call (completeCall isNewUser email (otp io) secrets (userSession st)),
                   ConsoleLog [Txt (if isNewUser then ''Registration successful!''
                                    else ''Login successful!'')]]
                  @ otpFailed (NewError
                      ''Authentication completed, but no session data was returned.'' []))))"

type_synonym flow_result = "state \<times> event list \<times> completion"

definition otpFlow :: "ctx \<Rightarrow> string \<Rightarrow> bool \<Rightarrow> state \<Rightarrow> otp_io \<Rightarrow> event list \<Rightarrow> flow_result" where
  "otpFlow c email isNewUser st io before =
     (fst (verifyOtp c email isNewUser st io),
      before @ snd (verifyOtp c email isNewUser st io), Returned)"

record login_io =
  email :: string
  initAuth_result :: result
  createAccount_result :: result
  retry_initAuth_result :: result
  otp_step :: otp_io

text \<open>
  \<open>error.message\<close> and \<open>message.includes(text)\<close> in the \<open>catch\<close> blocks of
  \<open>loginOrRegister\<close>; either can raise a \<open>TypeError\<close>, which then escapes the flow.
\<close>

definition messageContains :: "jsval \<Rightarrow> string \<Rightarrow> thrown + bool" where
  "messageContains message needle =
     (case message of
        JStr s \<Rightarrow> Inr (includesStr needle s)
      | JArr xs \<Rightarrow> Inr (JStr needle \<in> set xs)
      | _ \<Rightarrow> Inl TypeError)"

text \<open>\<open>message && (message.includes(a) || message.includes(b))\<close>\<close>

definition messageHasAny :: "jsval \<Rightarrow> string \<Rightarrow> string \<Rightarrow> thrown + bool" where
  "messageHasAny message a b =
     (if \<not> truthy message then Inr False
      else case messageContains message a of
             Inl e \<Rightarrow> Inl e
           | Inr True \<Rightarrow> Inr True
           | Inr False \<Rightarrow> messageContains message b)"

definition messageHas :: "jsval \<Rightarrow> string \<Rightarrow> thrown + bool" where
  "messageHas message a = (if \<not> truthy message then Inr False else messageContains message a)"

text \<open>The retry of the login after a registration that failed with "already exists".\<close>

definition retryLogin :: "ctx \<Rightarrow> state \<Rightarrow> login_io \<Rightarrow> event list \<Rightarrow> flow_result" where
  "retryLogin c st io before =
     (case retry_initAuth_result io of
        Returns r \<Rightarrow>
          if truthy r \<and> truthy (get r ''data'') then
            otpFlow c (email io) False st (otp_step io)
              (before @ [Call (InitAuth (email io))]
               @ simpleLog c [Txt ''OTP sent to your email. Please check your inbox.''])
          else (st, before @ [Call (InitAuth (email io))], Returned)
      | Throws retryError \<Rightarrow>
          if nullish retryError then
            (st, before @ [Call (InitAuth (email io))], Uncaught TypeError)
          else
            (st, before @ [Call (InitAuth (email io)),
               ConsoleError [Txt ''Login retry failed:'', Val (get retryError ''message'')]],
             Returned))"

text \<open>The \<open>catch\<close> block of the registration attempt.\<close>

definition registrationFailed :: "ctx \<Rightarrow> state \<Rightarrow> login_io \<Rightarrow> jsval \<Rightarrow> event list \<Rightarrow> flow_result" where
  "registrationFailed c st io registrationError before =
     (if nullish registrationError then (st, before, Uncaught TypeError)
      else case messageHas (get registrationError ''message'') ''already exists'' of
        Inl e \<Rightarrow>
          (st, before @ simpleLog c [Txt ''Registration failed: '',
                                     Val (get registrationError ''message'')],
           Uncaught e)
      | Inr True \<Rightarrow>
          retryLogin c st io
            (before
             @ simpleLog c [Txt ''Registration failed: '', Val (get registrationError ''message'')]
             @ simpleLog c [Txt ''Account already exists. Retrying login...''])
      | Inr False \<Rightarrow>
          (st, before
             @ simpleLog c [Txt ''Registration failed: '', Val (get registrationError ''message'')]
             @ [ConsoleError [Txt ''Registration failed:'', Val (get registrationError ''message'')]],
           Returned))"

text \<open>The \<open>catch\<close> block of the first login attempt.\<close>

definition authFailed :: "ctx \<Rightarrow> state \<Rightarrow> login_io \<Rightarrow> jsval \<Rightarrow> event list \<Rightarrow> flow_result" where
  "authFailed c st io err before =
     (if nullish err then (st, before, Uncaught TypeError)
      else case messageHasAny (get err ''message'') ''User not found'' ''not found'' of
        Inl e \<Rightarrow>
          (st, before @ simpleLog c [Txt ''Authentication failed: '', Val (get err ''message'')],
           Uncaught e)
      | Inr True \<Rightarrow>
          (case createAccount_result io of
             Returns accountResponse \<Rightarrow>
               otpFlow c (email io) True st (otp_step io)
                 (before
                  @ simpleLog c [Txt ''Authentication failed: '', Val (get err ''message'')]
                  @ simpleLog c [Txt ''User not found. Attempting to register...'']
                  @ [Call (CreateAccount (email io))]
                  @ simpleLog c [Txt ''Account creation initiated. OTP sent to your email.''])
           | Throws registrationError \<Rightarrow>
               registrationFailed c st io registrationError
                 (before
                  @ simpleLog c [Txt ''Authentication failed: '', Val (get err ''message'')]
                  @ simpleLog c [Txt ''User not found. Attempting to register...'']
                  @ [Call (CreateAccount (email io))]))
      | Inr False \<Rightarrow>
          otpFlow c (email io) False st (otp_step io)
            (before
             @ simpleLog c [Txt ''Authentication failed: '', Val (get err ''message'')]
             @ simpleLog c [Txt ''This might be an existing account. Try entering OTP if you received one.'']))"

definition ErrorObject :: "string \<Rightarrow> jsval" where
  "ErrorObject message = JObj [(''message'', JStr message)]"

definition loginOrRegister :: "ctx \<Rightarrow> state \<Rightarrow> login_io \<Rightarrow> flow_result" where
  "loginOrRegister c st io =
     (case initAuth_result io of
        Returns authResponse \<Rightarrow>
          if truthy authResponse \<and> truthy (get authResponse ''data'') then
            otpFlow c (email io) False st (otp_step io)
              ([Prompt ''Enter your email address:'']
               @ simpleLog c [Txt ''Checking for existing user...'']
               @ [Call (InitAuth (email io))]
               @ simpleLog c [Txt ''OTP sent to your email. Please check your inbox.''])
          else
            authFailed c st io (ErrorObject ''Failed to initialize authentication'')
              ([Prompt ''Enter your email address:'']
               @ simpleLog c [Txt ''Checking for existing user...'']
               @ [Call (InitAuth (email io))])
      | Throws err \<Rightarrow>
          authFailed c st io err
            ([Prompt ''Enter your email address:'']
             @ simpleLog c [Txt ''Checking for existing user...'']
             @ [Call (InitAuth (email io))]))"

section \<open>Balance query\<close>

record balance_io =
  getAccountBalances_result :: result

text \<open>
  \<open>Math.pow(10, y)\<close>.  The language fixes the result for the special exponents.  For an
  integer exponent from 0 to 22 the power is itself a double, and that is the result.  For
  every other finite exponent the result is the approximation of the runtime.
\<close>

definition Math_pow10 :: "ctx \<Rightarrow> jsnum \<Rightarrow> jsnum" where
  "Math_pow10 c y =
     (case y of
        NaN \<Rightarrow> NaN
      | PInf \<Rightarrow> PInf
      | NInf \<Rightarrow> Fin 0
      | Fin e \<Rightarrow>
          if of_int \<lfloor>e\<rfloor> = e \<and> 0 \<le> e \<and> e \<le> 22 then Fin (10 ^ nat \<lfloor>e\<rfloor>)
          else pow10_approx c e)"

text \<open>
  The balance printed for a token:
  \<open>token.amount_decimal || (Number(token.amount) / Math.pow(10, token.decimals || 6))\<close>
\<close>

definition computedBalance :: "ctx \<Rightarrow> jsval \<Rightarrow> jsval" where
  "computedBalance c token =
     JNum (js_div (ToNumber (get token ''amount''))
             (Math_pow10 c (ToNumber (js_or (get token ''decimals'') (JNum (Fin 6))))))"

definition tokenBalance :: "ctx \<Rightarrow> jsval \<Rightarrow> jsval" where
  "tokenBalance c token =
     (if truthy (get token ''amount_decimal'') then get token ''amount_decimal''
      else computedBalance c token)"

definition tokenLine :: "ctx \<Rightarrow> jsval \<Rightarrow> event" where
  "tokenLine c token =
     ConsoleLog [Txt ''  '', Val (js_or (get token ''symbol'') (JStr ''Unknown'')), Txt '': '',
                 Val (tokenBalance c token), Txt '' ('',
                 Val (js_or (get token ''name'') (JStr ''Unknown token'')), Txt '')'']"

text \<open>\<open>tokens.forEach\<close>: a \<open>null\<close> element raises when its first property is read.\<close>

fun forEachToken :: "ctx \<Rightarrow> jsval list \<Rightarrow> event list \<times> thrown option" where
  "forEachToken c [] = ([], None)"
| "forEachToken c (token # tokens) =
     (if nullish token then ([], Some TypeError)
      else (tokenLine c token # fst (forEachToken c tokens), snd (forEachToken c tokens)))"

definition usdcReport :: "ctx \<Rightarrow> jsval list \<Rightarrow> event list" where
  "usdcReport c tokens =
     (case find (\<lambda>b. get b ''symbol'' = JStr ''USDC'') tokens of
        Some usdcBalance \<Rightarrow>
          [ConsoleLog [Txt ''Your USDC balance is: '', Val (tokenBalance c usdcBalance),
                       Txt '' USDC'']]
      | None \<Rightarrow> [ConsoleLog [Txt ''No USDC balance found for this account.'']])"

definition tokensReport :: "ctx \<Rightarrow> jsval \<Rightarrow> event list \<times> thrown option" where
  "tokensReport c tokens =
     (case tokens of
        JArr ts \<Rightarrow>
          (ConsoleLog [Txt ''Found '', Val (get tokens ''length''), Txt '' token(s):'']
             # fst (forEachToken c ts)
             @ (if snd (forEachToken c ts) = None then usdcReport c ts else []),
           snd (forEachToken c ts))
      | _ \<Rightarrow>
          ([ConsoleLog [Txt ''Found '', Val (get tokens ''length''), Txt '' token(s):'']],
           Some TypeError))"

definition solReport :: "jsval \<Rightarrow> event list" where
  "solReport balancesResponse =
     (if truthy (optget (get balancesResponse ''data'') ''sol'')
      then [ConsoleLog [Txt ''SOL balance: '', Val (optget (get balancesResponse ''data'') ''sol''),
                        Txt '' SOL'']]
      else [])"

text \<open>The statements of the \<open>try\<close> block after the response has arrived.\<close>

definition balanceReport :: "ctx \<Rightarrow> jsval \<Rightarrow> event list \<times> thrown option" where
  "balanceReport c balancesResponse =
     (if nullish balancesResponse then ([], Some TypeError)
      else if \<not> truthy (get balancesResponse ''success'') then
        ([ConsoleError [Txt ''Failed to fetch balance:'', Val (get balancesResponse ''error'')]], None)
      else if truthy (optget (get balancesResponse ''data'') ''tokens'') then
        (fst (tokensReport c (optget (get balancesResponse ''data'') ''tokens''))
           @ (if snd (tokensReport c (optget (get balancesResponse ''data'') ''tokens'')) = None
              then solReport balancesResponse else []),
         snd (tokensReport c (optget (get balancesResponse ''data'') ''tokens'')))
      else
        (ConsoleLog [Txt ''No token balances found for this account.'']
           # solReport balancesResponse, None))"

definition caught :: "string \<Rightarrow> event list \<times> thrown option \<Rightarrow> event list" where
  "caught label r =
     (case snd r of None \<Rightarrow> fst r | Some e \<Rightarrow> fst r @ [ConsoleError [Txt label, Err e]])"

definition checkBalance :: "ctx \<Rightarrow> state \<Rightarrow> balance_io \<Rightarrow> flow_result" where
  "checkBalance c st io =
     (if \<not> truthy (userSession st) then
        (st, [ConsoleLog [Txt ''Please log in first.'']], Returned)
      else if \<not> truthy (accountAddressOf (userSession st)) then
        (st, [ConsoleError [Txt ''No account address found in session'']], Returned)
      else
        (st,
         [ConsoleLog [Txt ''Fetching balance for account: '', Val (accountAddressOf (userSession st))],
          Call (GetAccountBalances (accountAddressOf (userSession st)))]
         @ caught ''Failed to fetch balance:''
             (case getAccountBalances_result io of
                Throws e \<Rightarrow> ([], Some (Thrown e))
              | Returns balancesResponse \<Rightarrow> balanceReport c balancesResponse),
         Returned))"

section \<open>Transfers\<close>

text \<open>\<open>Math.floor(parseFloat(amount) * 1_000_000)\<close>\<close>

definition amountInBaseUnits :: "string \<Rightarrow> jsnum" where
  "amountInBaseUnits amt = Math_floor (js_mul (parseFloat amt) (Fin 1000000))"

text \<open>\<open>Math.floor(parseFloat(amount) * LAMPORTS_PER_SOL)\<close>\<close>

definition lamportsOf :: "string \<Rightarrow> jsnum" where
  "lamportsOf amt = Math_floor (js_mul (parseFloat amt) LAMPORTS_PER_SOL)"

text \<open>The signature in the response of \<open>gridClient.send\<close> (USDC transfer).\<close>

definition sendSignature :: "jsval \<Rightarrow> jsval" where
  "sendSignature signatureResponse =
     (if truthy signatureResponse \<and> truthy (get signatureResponse ''transaction_signature'') then
        get signatureResponse ''transaction_signature''
      else if truthy signatureResponse
              \<and> truthy (js_or (get signatureResponse ''signature'')
                           (optget (get signatureResponse ''data'') ''signature'')) then
        js_or (get signatureResponse ''signature'')
          (optget (get signatureResponse ''data'') ''signature'')
      else JNull)"

text \<open>The signature in the response of \<open>gridClient.signAndSend\<close> (SOL transfer).\<close>

definition signAndSendSignature :: "jsval \<Rightarrow> jsval" where
  "signAndSendSignature executedTx =
     (if truthy executedTx \<and> truthy (get executedTx ''signature'') then
        get executedTx ''signature''
      else if truthy executedTx
              \<and> truthy (js_or (get executedTx ''transaction_signature'')
                           (optget (get executedTx ''data'') ''signature'')) then
        js_or (get executedTx ''transaction_signature'')
          (optget (get executedTx ''data'') ''signature'')
      else JNull)"

definition unexpectedFormat :: event where
  "unexpectedFormat =
     ConsoleLog [Txt ''Transaction submitted successfully, but signature format is unexpected.'']"

definition transferOutcome :: "ctx \<Rightarrow> string \<Rightarrow> string \<Rightarrow> string \<Rightarrow> jsval \<Rightarrow> event list" where
  "transferOutcome c token amt recipientAddress txSignature =
     (if truthy txSignature then
        simpleLog c [Txt token, Txt '' transfer successful!'']
        @ simpleLog c [Txt ''Sent '', Txt amt, Txt '' '', Txt token, Txt '' to '', Txt recipientAddress]
        @ simpleLog c (Txt ''View transaction: '' # getExplorerUrl c txSignature)
      else [unexpectedFormat])"

record transfer_io =
  recipient_typed :: "string list"
  amount_typed :: "string list"
  createPaymentIntent_result :: result
  sign_result :: result
  send_result :: result

definition paymentIntentRequest :: "state \<Rightarrow> string \<Rightarrow> string \<Rightarrow> payment_intent_request" where
  "paymentIntentRequest st recipientAddress amt =
     \<lparr>amount = amountInBaseUnits amt,
      grid_user_id = get (userSession st) ''grid_user_id'',
      source_account = accountAddressOf (userSession st),
      source_currency = ''usdc'',
      source_payment_rail = ''smart_account'',
      destination_address = recipientAddress,
      destination_currency = ''usdc'',
      destination_payment_rail = ''smart_account''\<rparr>"

definition signCall :: "state \<Rightarrow> jsval \<Rightarrow> call" where
  "signCall st transactionPayload =
     Sign (sessionSecrets st)
       (js_or (get (userSession st) ''session'') (get (userSession st) ''authentication''))
       transactionPayload"

text \<open>The \<open>try\<close> block of \<open>transferTokens\<close>, from the signing of the payload on.\<close>

definition signAndSubmit :: "ctx \<Rightarrow> state \<Rightarrow> transfer_io \<Rightarrow> string \<Rightarrow> string \<Rightarrow> jsval
    \<Rightarrow> event list \<times> thrown option" where
  "signAndSubmit c st io recipientAddress amt transactionPayload =
     (case sign_result io of
        Throws e \<Rightarrow>
          (simpleLog c [Txt ''Signing USDC transaction...''] @ [Call (signCall st transactionPayload)],
           Some (Thrown e))
      | Returns signedPayload \<Rightarrow>
          (case send_result io of
             Throws e \<Rightarrow>
               (simpleLog c [Txt ''Signing USDC transaction...'']
                @ [Call (signCall st transactionPayload)]
                @ simpleLog c [Txt ''Sending USDC transaction...'']
                @ [Call (Send signedPayload (accountAddressOf (userSession st)))],
                Some (Thrown e))
           | Returns signatureResponse \<Rightarrow>
               (simpleLog c [Txt ''Signing USDC transaction...'']
                @ [Call (signCall st transactionPayload)]
                @ simpleLog c [Txt ''Sending USDC transaction...'']
                @ [Call (Send signedPayload (accountAddressOf (userSession st)))]
                @ transferOutcome c ''USDC'' amt recipientAddress (sendSignature signatureResponse),
                None)))"

definition transferTokensTry :: "ctx \<Rightarrow> state \<Rightarrow> transfer_io \<Rightarrow> string \<Rightarrow> string
    \<Rightarrow> event list \<times> thrown option" where
  "transferTokensTry c st io recipientAddress amt =
     (case createPaymentIntent_result io of
        Throws e \<Rightarrow> ([], Some (Thrown e))
      | Returns paymentIntentResponse \<Rightarrow>
          if nullish paymentIntentResponse then ([], Some TypeError)
          else if \<not> truthy (optget (get paymentIntentResponse ''data'') ''transactionPayload'') then
            ([], Some (NewError ''Failed to create payment intent: ''
                   [js_or (get paymentIntentResponse ''error'')
                      (JStr ''Response did not contain transaction payload'')]))
          else
            signAndSubmit c st io recipientAddress amt
              (get (get paymentIntentResponse ''data'') ''transactionPayload''))"

definition transferTokens :: "ctx \<Rightarrow> state \<Rightarrow> transfer_io \<Rightarrow> flow_result" where
  "transferTokens c st io =
     (if \<not> truthy (userSession st) \<or> \<not> truthy (sessionSecrets st) then
        (st, [ConsoleLog [Txt ''Please log in first.'']], Returned)
      else case snd (promptInput (addressValidate c) (recipient_typed io)) of
        None \<Rightarrow>
          (st, Prompt ''Enter the recipient's Solana address:''
               # fst (promptInput (addressValidate c) (recipient_typed io)), AwaitingInput)
      | Some recipientAddress \<Rightarrow>
          (case snd (promptInput (amountValidate USDC) (amount_typed io)) of
             None \<Rightarrow>
               (st, Prompt ''Enter the recipient's Solana address:''
                    # fst (promptInput (addressValidate c) (recipient_typed io))
                    @ Prompt ''Enter the amount of USDC to send:''
                    # fst (promptInput (amountValidate USDC) (amount_typed io)), AwaitingInput)
           | Some amt \<Rightarrow>
               if \<not> truthy (accountAddressOf (userSession st)) then
                 (st, Prompt ''Enter the recipient's Solana address:''
                      # fst (promptInput (addressValidate c) (recipient_typed io))
                      @ Prompt ''Enter the amount of USDC to send:''
                      # fst (promptInput (amountValidate USDC) (amount_typed io))
                      @ [ConsoleError [Txt ''No account address found in session'']], Returned)
               else
                 (st, Prompt ''Enter the recipient's Solana address:''
                      # fst (promptInput (addressValidate c) (recipient_typed io))
                      @ Prompt ''Enter the amount of USDC to send:''
                      # fst (promptInput (amountValidate USDC) (amount_typed io))
                      @ simpleLog c [Txt ''Creating USDC payment intent...'']
                      @ Call (CreatePaymentIntent (accountAddressOf (userSession st))
                               (paymentIntentRequest st recipientAddress amt))
                      # caught ''USDC transfer failed:''
                          (transferTokensTry c st io recipientAddress amt), Returned)))"

record sol_io =
  sol_recipient_typed :: "string list"
  sol_amount_typed :: "string list"
  getLatestBlockhash_result :: result
  prepareArbitraryTransaction_result :: result
  signAndSend_result :: result

definition transferTransaction :: "state \<Rightarrow> string \<Rightarrow> string \<Rightarrow> jsval \<Rightarrow> raw_transaction" where
  "transferTransaction st recipientAddress amt latest =
     \<lparr>fromPubkey = accountAddressOf (userSession st),
      toPubkey = recipientAddress,
      lamports = lamportsOf amt,
      recentBlockhash = get latest ''blockhash'',
      feePayer = accountAddressOf (userSession st)\<rparr>"

definition signAndSendCall :: "state \<Rightarrow> jsval \<Rightarrow> call" where
  "signAndSendCall st transactionPayload =
     SignAndSend (sessionSecrets st) (get (userSession st) ''authentication'') transactionPayload
       (accountAddressOf (userSession st))"

text \<open>
  The inner \<open>catch\<close> blocks around \<open>prepareArbitraryTransaction\<close> and
  \<open>signAndSend\<close> throw the error again; in debug mode they first print
  \<open>error.message\<close>, and reading a property of \<open>null\<close> or \<open>undefined\<close> raises a
  \<open>TypeError\<close> in its place.
\<close>

definition rethrown :: "ctx \<Rightarrow> jsval \<Rightarrow> thrown" where
  "rethrown c e = (if DEBUG_MODE c \<and> nullish e then TypeError else Thrown e)"

text \<open>The \<open>try\<close> block of \<open>transferSOLArbitrary\<close>, from the prepared payload on.\<close>

definition executePrepared :: "ctx \<Rightarrow> state \<Rightarrow> sol_io \<Rightarrow> string \<Rightarrow> string \<Rightarrow> jsval
    \<Rightarrow> event list \<times> thrown option" where
  "executePrepared c st io recipientAddress amt prepareResponse =
     (if nullish prepareResponse then ([], Some TypeError)
      else if \<not> truthy (get prepareResponse ''data'') then
        ([], Some (NewError ''Failed to prepare transaction: ''
               [js_or (get prepareResponse ''error'') (JStr ''No data in response'')]))
      else case signAndSend_result io of
        Throws e \<Rightarrow>
          (simpleLog c [Txt ''Executing SOL transaction...'']
           @ [Call (signAndSendCall st (get prepareResponse ''data''))], Some (rethrown c e))
      | Returns executedTx \<Rightarrow>
          (simpleLog c [Txt ''Executing SOL transaction...'']
           @ [Call (signAndSendCall st (get prepareResponse ''data''))]
           @ transferOutcome c ''SOL'' amt recipientAddress (signAndSendSignature executedTx),
           None))"

text \<open>From the arrival of the latest blockhash on.\<close>

definition prepareAndExecute :: "ctx \<Rightarrow> state \<Rightarrow> sol_io \<Rightarrow> string \<Rightarrow> string \<Rightarrow> jsval
    \<Rightarrow> event list \<times> thrown option" where
  "prepareAndExecute c st io recipientAddress amt latest =
     (if nullish latest then ([], Some TypeError)
      else case serialize_error c (transferTransaction st recipientAddress amt latest) of
        Some e \<Rightarrow> ([], Some e)
      | None \<Rightarrow>
          (case prepareArbitraryTransaction_result io of
             Throws e \<Rightarrow>
               (simpleLog c [Txt ''Preparing transaction with Grid...'']
                @ [Call (PrepareArbitraryTransaction (accountAddressOf (userSession st))
                          (transferTransaction st recipientAddress amt latest))],
                Some (rethrown c e))
           | Returns prepareResponse \<Rightarrow>
               (simpleLog c [Txt ''Preparing transaction with Grid...'']
                @ [Call (PrepareArbitraryTransaction (accountAddressOf (userSession st))
                          (transferTransaction st recipientAddress amt latest))]
                @ fst (executePrepared c st io recipientAddress amt prepareResponse),
                snd (executePrepared c st io recipientAddress amt prepareResponse))))"

definition transferSOLTry :: "ctx \<Rightarrow> state \<Rightarrow> sol_io \<Rightarrow> string \<Rightarrow> string
    \<Rightarrow> event list \<times> thrown option" where
  "transferSOLTry c st io recipientAddress amt =
     (case PublicKey_error c (accountAddressOf (userSession st)) of
        Some e \<Rightarrow> (simpleLog c [Txt ''Creating SOL transfer transaction...''], Some e)
      | None \<Rightarrow>
          (case PublicKey_error c (JStr recipientAddress) of
             Some e \<Rightarrow> (simpleLog c [Txt ''Creating SOL transfer transaction...''], Some e)
           | None \<Rightarrow>
               (case getLatestBlockhash_result io of
                  Throws e \<Rightarrow>
                    (simpleLog c [Txt ''Creating SOL transfer transaction...'']
                     @ simpleLog c [Txt ''Preparing transaction...'']
                     @ [Call GetLatestBlockhash], Some (Thrown e))
                | Returns latest \<Rightarrow>
                    (simpleLog c [Txt ''Creating SOL transfer transaction...'']
                     @ simpleLog c [Txt ''Preparing transaction...'']
                     @ [Call GetLatestBlockhash]
                     @ fst (prepareAndExecute c st io recipientAddress amt latest),
                     snd (prepareAndExecute c st io recipientAddress amt latest)))))"

definition transferSOLArbitrary :: "ctx \<Rightarrow> state \<Rightarrow> sol_io \<Rightarrow> flow_result" where
  "transferSOLArbitrary c st io =
     (if \<not> truthy (userSession st) \<or> \<not> truthy (sessionSecrets st) then
        (st, [ConsoleLog [Txt ''Please log in first.'']], Returned)
      else case snd (promptInput (addressValidate c) (sol_recipient_typed io)) of
        None \<Rightarrow>
          (st, Prompt ''Enter the recipient's Solana address:''
               # fst (promptInput (addressValidate c) (sol_recipient_typed io)), AwaitingInput)
      | Some recipientAddress \<Rightarrow>
          (case snd (promptInput (amountValidate SOL) (sol_amount_typed io)) of
             None \<Rightarrow>
               (st, Prompt ''Enter the recipient's Solana address:''
                    # fst (promptInput (addressValidate c) (sol_recipient_typed io))
                    @ Prompt ''Enter the amount of SOL to send:''
                    # fst (promptInput (amountValidate SOL) (sol_amount_typed io)), AwaitingInput)
           | Some amt \<Rightarrow>
               if \<not> truthy (accountAddressOf (userSession st)) then
                 (st, Prompt ''Enter the recipient's Solana address:''
                      # fst (promptInput (addressValidate c) (sol_recipient_typed io))
                      @ Prompt ''Enter the amount of SOL to send:''
                      # fst (promptInput (amountValidate SOL) (sol_amount_typed io))
                      @ [ConsoleError [Txt ''No account address found in session'']], Returned)
               else
                 (st, Prompt ''Enter the recipient's Solana address:''
                      # fst (promptInput (addressValidate c) (sol_recipient_typed io))
                      @ Prompt ''Enter the amount of SOL to send:''
                      # fst (promptInput (amountValidate SOL) (sol_amount_typed io))
                      @ caught ''SOL transfer failed:''
                          (transferSOLTry c st io recipientAddress amt), Returned)))"

section \<open>Main menu\<close>

datatype menu_choice =
    Login login_io
  | Balance balance_io
  | Transfer transfer_io
  | ArbitrarySOL sol_io
  | Exit

definition menuHeader :: "event list" where
  "menuHeader = [ConsoleLog [Txt ''------------------''], Prompt ''What would you like to do?'']"

fun runChoice :: "ctx \<Rightarrow> state \<Rightarrow> menu_choice \<Rightarrow> flow_result" where
  "runChoice c st (Login io) = loginOrRegister c st io"
| "runChoice c st (Balance io) = checkBalance c st io"
| "runChoice c st (Transfer io) = transferTokens c st io"
| "runChoice c st (ArbitrarySOL io) = transferSOLArbitrary c st io"
| "runChoice c st Exit = (st, [ConsoleLog [Txt ''Goodbye!'']], Returned)"

text \<open>
  The menu runs the chosen flow and shows itself again, until \<open>Exit\<close> is chosen.  The
  list holds the user's choices, each with the inputs of its flow; when it is used up the
  menu is waiting for the next choice.
\<close>

fun mainMenu :: "ctx \<Rightarrow> state \<Rightarrow> menu_choice list \<Rightarrow> flow_result" where
  "mainMenu c st [] = (st, menuHeader, AwaitingInput)"
| "mainMenu c st (Exit # rest) = (st, menuHeader @ [ConsoleLog [Txt ''Goodbye!'']], Returned)"
| "mainMenu c st (choice # rest) =
     (if snd (snd (runChoice c st choice)) = Returned then
        (fst (mainMenu c (fst (runChoice c st choice)) rest),
         menuHeader @ fst (snd (runChoice c st choice))
           @ fst (snd (mainMenu c (fst (runChoice c st choice)) rest)),
         snd (snd (mainMenu c (fst (runChoice c st choice)) rest)))
      else
        (fst (runChoice c st choice), menuHeader @ fst (snd (runChoice c st choice)),
         snd (snd (runChoice c st choice))))"

section \<open>Configuration and entry point\<close>

text \<open>
  The environment is \<open>process.env\<close> after \<open>dotenv.config()\<close> has loaded the
  \<open>.env\<close> file.  \<open>envOr v d\<close> is \<open>v || d\<close> for an environment variable.
\<close>

definition envOr :: "string option \<Rightarrow> string \<Rightarrow> string" where
  "envOr v d = (case v of None \<Rightarrow> d | Some s \<Rightarrow> if s = [] then d else s)"

definition GRID_ENVIRONMENT_of :: "(string \<rightharpoonup> string) \<Rightarrow> string" where
  "GRID_ENVIRONMENT_of env = envOr (env ''GRID_ENVIRONMENT'') ''sandbox''"

definition GRID_BASE_URL_of :: "(string \<rightharpoonup> string) \<Rightarrow> string" where
  "GRID_BASE_URL_of env = envOr (env ''GRID_BASE_URL'') ''https://grid.squads.xyz''"

definition DEBUG_MODE_of :: "(string \<rightharpoonup> string) \<Rightarrow> string list \<Rightarrow> bool" where
  "DEBUG_MODE_of env argv =
     (env ''DEBUG'' = Some ''true'' \<or> ''--debug'' \<in> set argv \<or> ''-d'' \<in> set argv)"

definition GRID_API_KEY_of :: "(string \<rightharpoonup> string) \<Rightarrow> string option" where
  "GRID_API_KEY_of env =
     (if GRID_ENVIRONMENT_of env = ''production'' then env ''GRID_PRODUCTION_API_KEY''
      else env ''GRID_SANDBOX_API_KEY'')"

text \<open>\<open>!GRID_API_KEY\<close>: the variable is not set, or set to the empty string.\<close>

definition missingApiKey :: "(string \<rightharpoonup> string) \<Rightarrow> bool" where
  "missingApiKey env = (GRID_API_KEY_of env = None \<or> GRID_API_KEY_of env = Some [])"

definition missingKeyReport :: "(string \<rightharpoonup> string) \<Rightarrow> event list" where
  "missingKeyReport env =
     [ConsoleError [Txt ''ERROR: Missing API key for environment:'', Upper (GRID_ENVIRONMENT_of env)],
      ConsoleError [Txt ''Please set the following environment variable:''],
      ConsoleError [Txt ''   '',
        Txt (if GRID_ENVIRONMENT_of env = ''production'' then ''GRID_PRODUCTION_API_KEY''
             else ''GRID_SANDBOX_API_KEY'')],
      ConsoleError [Txt ''Copy .env.example to .env and add your API keys'']]"

text \<open>What the program takes from the web3 library and from the runtime.\<close>

record library =
  new_PublicKey_error :: "jsval \<Rightarrow> thrown option"
  transaction_serialize_error :: "raw_transaction \<Rightarrow> thrown option"
  Math_pow10_approx :: "rat \<Rightarrow> jsnum"

definition configure :: "(string \<rightharpoonup> string) \<Rightarrow> string list \<Rightarrow> library \<Rightarrow> ctx" where
  "configure env argv lib =
     \<lparr>DEBUG_MODE = DEBUG_MODE_of env argv,
      GRID_ENVIRONMENT = GRID_ENVIRONMENT_of env,
      PublicKey_error = new_PublicKey_error lib,
      serialize_error = transaction_serialize_error lib,
      pow10_approx = Math_pow10_approx lib\<rparr>"

definition initializeGridClient :: "(string \<rightharpoonup> string) \<Rightarrow> string list \<Rightarrow> event list" where
  "initializeGridClient env argv =
     (if DEBUG_MODE_of env argv then []
      else [ConsoleLog [Txt ''Grid CLI - '', Upper (GRID_ENVIRONMENT_of env), Txt '' Environment'']])
     @ [NewGridClient (envOr (GRID_API_KEY_of env) []) (GRID_ENVIRONMENT_of env)
          (GRID_BASE_URL_of env),
        NewConnection (if GRID_ENVIRONMENT_of env = ''sandbox'' then ''devnet''
                       else ''mainnet-beta'')]"

definition main :: "(string \<rightharpoonup> string) \<Rightarrow> string list \<Rightarrow> library \<Rightarrow> menu_choice list \<Rightarrow> flow_result" where
  "main env argv lib choices =
     (fst (mainMenu (configure env argv lib) initial_state choices),
      initializeGridClient env argv
        @ ConsoleLog [Txt ''Welcome to the Grid SDK CLI Tool!'']
        # fst (snd (mainMenu (configure env argv lib) initial_state choices)),
      snd (snd (mainMenu (configure env argv lib) initial_state choices)))"

text \<open>The module, from its first statement: the check of the API key, then \<open>main()\<close>.\<close>

definition program :: "(string \<rightharpoonup> string) \<Rightarrow> string list \<Rightarrow> library \<Rightarrow> menu_choice list \<Rightarrow> flow_result" where
  "program env argv lib choices =
     (if missingApiKey env then (initial_state, missingKeyReport env, Exited 1)
      else main env argv lib choices)"

section \<open>Observations and example inputs\<close>

text \<open>The operations a trace invokes on \<open>gridClient\<close> and \<open>solanaConnection\<close>, in order.\<close>

fun calls_of :: "event list \<Rightarrow> call list" where
  "calls_of [] = []"
| "calls_of (Call k # es) = k # calls_of es"
| "calls_of (e # es) = calls_of es"









text \<open>
  The example configuration: quiet mode, the default environment, a web3 library that
  raises nothing.  The examples take no power of 10 that is left to the runtime.
\<close>

definition default_ctx :: ctx where
  "default_ctx = \<lparr>DEBUG_MODE = False, GRID_ENVIRONMENT = ''sandbox'',
     PublicKey_error = (\<lambda>v. None), serialize_error = (\<lambda>t. None),
     pow10_approx = (\<lambda>e. NaN)\<rparr>"

definition example_session :: jsval where
  "example_session =
     JObj [(''address'', JStr ''ADDR1''), (''grid_user_id'', JStr ''user-1''),
           (''authentication'', JArr [JObj [(''provider'', JStr ''privy'')]])]"

definition authenticated :: state where
  "authenticated = \<lparr>userSession = example_session, sessionSecrets = JArr [JStr ''secret'']\<rparr>"

definition example_balance_io :: balance_io where
  "example_balance_io = \<lparr>getAccountBalances_result = Returns (JObj [(''success'', JBool True)])\<rparr>"

definition example_transfer_io :: transfer_io where
  "example_transfer_io =
     \<lparr>recipient_typed = [''ADDR2''], amount_typed = [''-5'', ''abc''],
      createPaymentIntent_result =
        Returns (JObj [(''data'', JObj [(''transactionPayload'', JStr ''PAYLOAD'')])]),
      sign_result = Returns (JStr ''SIGNED''),
      send_result = Returns (JObj [(''transaction_signature'', JStr ''SIG'')])\<rparr>"

definition example_sol_io :: sol_io where
  "example_sol_io =
     \<lparr>sol_recipient_typed = [''ADDR2''], sol_amount_typed = [''-5'', ''abc''],
      getLatestBlockhash_result = Returns (JObj [(''blockhash'', JStr ''HASH'')]),
      prepareArbitraryTransaction_result =
        Returns (JObj [(''data'', JObj [(''transaction'', JStr ''PREPARED'')])]),
      signAndSend_result = Returns (JObj [(''signature'', JStr ''SIG'')])\<rparr>"

definition zero_lamport_io :: sol_io where
  "zero_lamport_io = example_sol_io\<lparr>sol_amount_typed := [''0.0000000001'']\<rparr>"

definition paying_io :: transfer_io where
  "paying_io = example_transfer_io\<lparr>amount_typed := [''12.5'']\<rparr>"



definition falsy_session :: state where
  "falsy_session =
     \<lparr>userSession = JObj [(''address'', JStr ''ADDR1''), (''session'', JStr []),
                          (''authentication'', JStr ''AUTH'')],
      sessionSecrets = JArr [JStr ''secret'']\<rparr>"






definition failing_otp_io :: otp_io where
  "failing_otp_io =
     \<lparr>otp = ''000000'', generateSessionSecrets_result = Returns (JArr [JStr ''fresh'']),
      completeAuth_result = Throws (JObj [(''message'', JStr ''Invalid OTP'')])\<rparr>"

definition example_library :: library where
  "example_library =
     \<lparr>new_PublicKey_error = (\<lambda>v. None), transaction_serialize_error = (\<lambda>t. None),
      Math_pow10_approx = (\<lambda>e. NaN)\<rparr>"

text \<open>The events that construct a client handle.\<close>

fun constructs :: "event \<Rightarrow> bool" where
  "constructs (NewGridClient k e u) = True"
| "constructs (NewConnection n) = True"
| "constructs e = False"

fun isLogin :: "menu_choice \<Rightarrow> bool" where
  "isLogin (Login io) = True"
| "isLogin ch = False"


definition zero_balance_token :: jsval where
  "zero_balance_token = JObj [(''symbol'', JStr ''USDC''), (''amount_decimal'', JNum (Fin 0))]"

definition no_decimals_token :: jsval where
  "no_decimals_token =
     JObj [(''symbol'', JStr ''NFT''), (''amount'', JStr ''5''), (''decimals'', JNum (Fin 0))]"

definition usdc_token :: jsval where
  "usdc_token =
     JObj [(''symbol'', JStr ''USDC''), (''amount'', JStr ''12500000''), (''decimals'', JNum (Fin 6))]"



definition usdc_balance_io :: balance_io where
  "usdc_balance_io =
     \<lparr>getAccountBalances_result =
        Returns (JObj [(''success'', JBool True), (''data'', JObj [(''tokens'', JArr [usdc_token])])])\<rparr>"

section \<open>Rounding\<close>

lemma pow2_pos: "0 < pow2 q"
  by (simp add: pow2_def)

lemma pow2_nonpos: "q \<le> 0 \<Longrightarrow> pow2 q = 1 / 2 ^ nat (- q)"
  by (cases "q = 0") (simp_all add: pow2_def)

lemma round_half_even_bounds: "\<lfloor>m\<rfloor> \<le> round_half_even m \<and> round_half_even m \<le> \<lceil>m\<rceil>"
proof -
  have "m \<noteq> of_int \<lfloor>m\<rfloor> \<Longrightarrow> \<lceil>m\<rceil> = \<lfloor>m\<rfloor> + 1"
    by (simp add: ceiling_altdef)
  moreover have "\<lfloor>m\<rfloor> \<le> \<lceil>m\<rceil>"
    by simp
  ultimately show ?thesis
    by (auto simp: round_half_even_def nearest_even_def)
qed

lemma ilog2_le_52:
  assumes "0 < x" and "x < 2 ^ 53"
  shows "ilog2 x \<le> 52"
proof (cases "1 \<le> x")
  case True
  have "\<lfloor>x\<rfloor> < 9007199254740992"
    using assms(2) by (simp add: floor_less_iff)
  then have "nat \<lfloor>x\<rfloor> < 9007199254740992"
    by linarith
  then have "floorlog 2 (nat \<lfloor>x\<rfloor>) \<le> 53"
    by (intro floorlog_leI) simp_all
  with True show ?thesis
    by (simp add: ilog2_def)
next
  case False
  then show ?thesis
    by (simp add: ilog2_def)
qed

lemma round_at_bounds:
  assumes "q \<le> 0"
  shows "of_int \<lfloor>x\<rfloor> \<le> round_at x q \<and> round_at x q \<le> of_int \<lceil>x\<rceil>"
proof -
  define k where "k = nat (- q)"
  define n where "n = round_half_even (x * 2 ^ k)"
  have p: "pow2 q = 1 / 2 ^ k"
    using assms by (simp add: pow2_nonpos k_def)
  have r: "round_at x q = of_int n / 2 ^ k"
    by (simp add: round_at_def p n_def)
  have "of_int (\<lfloor>x\<rfloor> * 2 ^ k) \<le> x * 2 ^ k"
    by (simp add: mult_right_mono)
  then have "\<lfloor>x\<rfloor> * 2 ^ k \<le> \<lfloor>x * 2 ^ k\<rfloor>"
    by (simp only: le_floor_iff)
  then have lo: "\<lfloor>x\<rfloor> * 2 ^ k \<le> n"
    using round_half_even_bounds [of "x * 2 ^ k"] by (simp add: n_def)
  have "x * 2 ^ k \<le> of_int (\<lceil>x\<rceil> * 2 ^ k)"
    by (simp add: mult_right_mono)
  then have "\<lceil>x * 2 ^ k\<rceil> \<le> \<lceil>x\<rceil> * 2 ^ k"
    by (simp only: ceiling_le_iff)
  then have hi: "n \<le> \<lceil>x\<rceil> * 2 ^ k"
    using round_half_even_bounds [of "x * 2 ^ k"] by (simp add: n_def)
  have "(of_int (\<lfloor>x\<rfloor> * 2 ^ k) :: rat) \<le> of_int n"
    using lo by (simp only: of_int_le_iff)
  then have "(of_int \<lfloor>x\<rfloor> :: rat) \<le> of_int n / 2 ^ k"
    by (simp add: pos_le_divide_eq)
  moreover have "(of_int n :: rat) \<le> of_int (\<lceil>x\<rceil> * 2 ^ k)"
    using hi by (simp only: of_int_le_iff)
  then have "(of_int n :: rat) / 2 ^ k \<le> of_int \<lceil>x\<rceil>"
    by (simp add: pos_divide_le_eq)
  ultimately show ?thesis
    by (simp add: r)
qed

lemma round_double_bounds:
  assumes "0 < x" and "x < 2 ^ 53"
  shows "\<exists>r. round_double x = Fin r \<and> of_int \<lfloor>x\<rfloor> \<le> r \<and> r \<le> of_int \<lceil>x\<rceil>"
proof -
  have q: "max (ilog2 x - 52) (- 1074) \<le> 0"
    using ilog2_le_52 [OF assms] by simp
  have b: "of_int \<lfloor>x\<rfloor> \<le> round_pos x \<and> round_pos x \<le> of_int \<lceil>x\<rceil>"
    unfolding round_pos_def by (rule round_at_bounds [OF q])
  have "\<lceil>x\<rceil> \<le> 9007199254740992"
    using assms(2) by (simp add: ceiling_le_iff)
  then have "(of_int \<lceil>x\<rceil> :: rat) \<le> 9007199254740992"
    by simp
  then have "round_pos x \<le> 9007199254740992"
    using b by linarith
  moreover have "(9007199254740992 :: rat) < 2 ^ 1024"
    by simp
  ultimately have "round_pos x < 2 ^ 1024"
    by (rule le_less_trans)
  then have "\<not> 2 ^ 1024 \<le> round_pos x"
    by (simp only: not_le)
  then have "round_double x = Fin (round_pos x)"
    using assms(1) by (simp add: round_double_def overflow_def)
  with b show ?thesis
    by blast
qed

lemma floor_round_double:
  assumes "0 < x" and "x < 2 ^ 53"
  shows "\<exists>n. Math_floor (round_double x) = Fin (of_int n) \<and> \<lfloor>x\<rfloor> \<le> n \<and> n \<le> \<lfloor>x\<rfloor> + 1"
proof -
  obtain r where r: "round_double x = Fin r" "of_int \<lfloor>x\<rfloor> \<le> r" "r \<le> of_int \<lceil>x\<rceil>"
    using round_double_bounds [OF assms] by blast
  have "\<lfloor>x\<rfloor> \<le> \<lfloor>r\<rfloor>"
    using r(2) by (simp add: le_floor_iff)
  moreover have "\<lfloor>r\<rfloor> \<le> \<lceil>x\<rceil>"
    using floor_mono [OF r(3)] by simp
  moreover have "\<lceil>x\<rceil> \<le> \<lfloor>x\<rfloor> + 1"
    by (simp add: ceiling_altdef)
  ultimately show ?thesis
    using r(1) by (intro exI [of _ "\<lfloor>r\<rfloor>"]) simp
qed

text \<open>Integers of at most 53 bits are doubles: rounding leaves them as they are.\<close>

lemma round_double_of_int:
  assumes "0 < n" and "n < 2 ^ 53"
  shows "round_double (of_int n) = Fin (of_int n)"
proof -
  have "(0 :: rat) < of_int n"
    using assms(1) by simp
  moreover have "(of_int n :: rat) < 2 ^ 53"
    using assms(2) by simp
  ultimately obtain r where "round_double (of_int n) = Fin r"
      "of_int \<lfloor>of_int n :: rat\<rfloor> \<le> r" "r \<le> of_int \<lceil>of_int n :: rat\<rceil>"
    using round_double_bounds [of "of_int n"] by blast
  then show ?thesis
    by simp
qed

lemma pow2_power_int: "pow2 q = 2 powi q"
  by (simp add: pow2_def power_int_def field_simps)

lemma pow2_add: "pow2 (p + q) = pow2 p * pow2 q"
  by (simp add: pow2_power_int power_int_add)

lemma pow2_mono: "p \<le> q \<Longrightarrow> pow2 p \<le> pow2 q"
  by (simp add: pow2_power_int power_int_increasing)

lemma pow2_53: "pow2 53 = 2 ^ 53"
  by (simp add: pow2_def)



lemma ilog2_bounds:
  assumes "0 < x"
  shows "pow2 (ilog2 x) \<le> x \<and> x < pow2 (ilog2 x + 1)"
proof (cases "1 \<le> x")
  case True
  define n where "n = nat \<lfloor>x\<rfloor>"
  define k where "k = floorlog 2 n"
  have n: "0 < n"
    using True by (simp add: n_def)
  have b: "2 ^ (k - 1) \<le> n" "n < 2 ^ k"
    using floorlog_bounds [of n 2] n by (simp_all add: k_def)
  have k: "0 < k"
    using b(2) n by (cases k) simp_all
  have i: "ilog2 x = int k - 1"
    using True by (simp add: ilog2_def n_def k_def)
  have nx: "of_nat n \<le> x" "x < of_nat n + 1"
    using True by (simp_all add: n_def) linarith+
  have p: "pow2 (ilog2 x) = 2 ^ (k - 1)" "pow2 (ilog2 x + 1) = 2 ^ k"
    using k by (simp_all add: i pow2_def nat_diff_distrib')
  have "(2 :: rat) ^ (k - 1) \<le> of_nat n"
    using b(1) by (metis of_nat_le_iff of_nat_numeral of_nat_power)
  then have lo: "2 ^ (k - 1) \<le> x"
    using nx(1) by linarith
  have "n + 1 \<le> 2 ^ k"
    using b(2) by simp
  then have "(of_nat (n + 1) :: rat) \<le> 2 ^ k"
    by (metis of_nat_le_iff of_nat_numeral of_nat_power)
  then have "(of_nat n :: rat) + 1 \<le> 2 ^ k"
    by simp
  then have hi: "x < 2 ^ k"
    using nx(2) by linarith
  show ?thesis
    unfolding p using lo hi by blast
next
  case False
  define y where "y = 1 / x"
  define m where "m = nat (\<lceil>y\<rceil> - 1)"
  define k where "k = floorlog 2 m"
  have y: "1 < y"
    using assms False by (simp add: y_def)
  then have c: "2 \<le> \<lceil>y\<rceil>"
    by (simp add: le_ceiling_iff)
  then have m: "0 < m" "int m = \<lceil>y\<rceil> - 1"
    by (simp_all add: m_def)
  have b: "2 ^ (k - 1) \<le> m" "m < 2 ^ k"
    using floorlog_bounds [of m 2] m(1) by (simp_all add: k_def)
  have k: "0 < k"
    using b(2) m(1) by (cases k) simp_all
  have i: "ilog2 x = - int k"
    using False by (simp add: ilog2_def m_def k_def y_def)
  have my: "of_nat m < y" "y \<le> of_nat m + 1"
  proof -
    have "(of_int (\<lceil>y\<rceil> - 1) :: rat) < y"
      by linarith
    then show "of_nat m < y"
      using m(2) by (metis of_int_of_nat_eq)
    have "y \<le> of_int \<lceil>y\<rceil>"
      by linarith
    then show "y \<le> of_nat m + 1"
      using m(2) by (metis of_int_of_nat_eq of_int_diff of_int_1 diff_add_cancel)
  qed
  have "m + 1 \<le> 2 ^ k"
    using b(2) by simp
  then have "(of_nat (m + 1) :: rat) \<le> 2 ^ k"
    by (metis of_nat_le_iff of_nat_numeral of_nat_power)
  then have "(of_nat m :: rat) + 1 \<le> 2 ^ k"
    by simp
  then have "y \<le> 2 ^ k"
    using my(2) by linarith
  then have lo: "1 / 2 ^ k \<le> x"
    using assms by (simp add: y_def field_simps)
  have "(2 :: rat) ^ (k - 1) \<le> of_nat m"
    using b(1) by (metis of_nat_le_iff of_nat_numeral of_nat_power)
  then have "2 ^ (k - 1) < y"
    using my(1) by linarith
  then have hi: "x < 1 / 2 ^ (k - 1)"
    using assms by (simp add: y_def field_simps)
  have "pow2 (ilog2 x) = 1 / 2 ^ k"
    by (simp add: i pow2_nonpos)
  moreover have "pow2 (ilog2 x + 1) = 1 / 2 ^ (k - 1)"
    using k by (simp add: i pow2_nonpos nat_diff_distrib')
  ultimately show ?thesis
    using lo hi by metis
qed


lemma round_significand:
  assumes "0 < a"
  shows "round_half_even (a / pow2 (max (ilog2 a - 52) (- 1074))) \<le> 2 ^ 53"
proof -
  define q where "q = max (ilog2 a - 52) (- 1074)"
  have "pow2 (ilog2 a - 52) \<le> pow2 q"
    by (rule pow2_mono) (simp add: q_def)
  then have "pow2 (ilog2 a - 52) * 9007199254740992 \<le> pow2 q * 9007199254740992"
    by simp
  moreover have "pow2 (ilog2 a + 1) = pow2 (ilog2 a - 52) * 9007199254740992"
    using pow2_add [of "ilog2 a - 52" 53] by (simp add: pow2_53 add.commute)
  moreover have "a < pow2 (ilog2 a + 1)"
    using ilog2_bounds [OF assms] by simp
  ultimately have "a < pow2 q * 9007199254740992"
    by linarith
  then have "a / pow2 q < 9007199254740992"
    using pow2_pos [of q] by (simp add: pos_divide_less_eq mult.commute)
  then have "a / pow2 q \<le> of_int 9007199254740992"
    by simp
  then have "\<lceil>a / pow2 q\<rceil> \<le> 9007199254740992"
    by (simp only: ceiling_le_iff)
  then have "round_half_even (a / pow2 q) \<le> 9007199254740992"
    using round_half_even_bounds [of "a / pow2 q"] by linarith
  then show ?thesis
    unfolding q_def by simp
qed

section \<open>Validation\<close>

lemma validateAmount_valid_iff:
  "valid (validateAmount s t) \<longleftrightarrow>
     (\<exists>a. parseFloat s = Fin a \<and> 0 < a \<and> a \<le> (case t of USDC \<Rightarrow> 1000000 | SOL \<Rightarrow> 10000))"
  by (cases "parseFloat s"; cases t)
    (auto simp: validateAmount_def isNaN_def js_le_def js_gt_def)

section \<open>Parsing ignores what follows the literal\<close>

lemma space_not_digit: "isJsSpace c \<Longrightarrow> \<not> isDigit c"
  by (auto simp: isJsSpace_def isDigit_def)

lemma space_not_literal:
  "isJsSpace c \<Longrightarrow> c \<noteq> CHR ''-'' \<and> c \<noteq> CHR ''+'' \<and> c \<noteq> CHR ''.'' \<and> c \<noteq> CHR ''e'' \<and> c \<noteq> CHR ''E''"
  by (auto simp: isJsSpace_def)

lemma takeWhile_digits_append:
  "\<forall>c\<in>set w. \<not> isDigit c \<Longrightarrow> takeWhile isDigit (t @ w) = takeWhile isDigit t"
  by (induction t) (auto simp: takeWhile_eq_Nil_iff intro: hd_in_set)

lemma dropWhile_digits_append:
  "\<forall>c\<in>set w. \<not> isDigit c \<Longrightarrow> dropWhile isDigit (t @ w) = dropWhile isDigit t @ w"
  by (induction t) (auto simp: dropWhile_eq_self_iff intro: hd_in_set)

lemma signedInteger_append:
  assumes "\<forall>c\<in>set w. isJsSpace c"
  shows "signedInteger (t @ w) = map_option (\<lambda>(n, r). (n, r @ w)) (signedInteger t)"
proof -
  have nd: "\<forall>c\<in>set w. \<not> isDigit c"
    using assms space_not_digit by blast
  show ?thesis
  proof (cases t)
    case Nil
    show ?thesis
    proof (cases w)
      case Nil
      with \<open>t = []\<close> show ?thesis by (simp add: signedInteger_def)
    next
      case (Cons c w')
      then have "isJsSpace c" using assms by simp
      then have "c \<noteq> CHR ''-''" "c \<noteq> CHR ''+''" "\<not> isDigit c"
        using space_not_literal space_not_digit by blast+
      with Cons \<open>t = []\<close> show ?thesis by (simp add: signedInteger_def)
    qed
  next
    case (Cons c t')
    have "takeWhile isDigit (t' @ w) = takeWhile isDigit t'"
      "dropWhile isDigit (t' @ w) = dropWhile isDigit t' @ w"
      "takeWhile isDigit (c # t' @ w) = takeWhile isDigit (c # t')"
      "dropWhile isDigit (c # t' @ w) = dropWhile isDigit (c # t') @ w"
      using takeWhile_digits_append [OF nd, of t'] dropWhile_digits_append [OF nd, of t']
        takeWhile_digits_append [OF nd, of "c # t'"] dropWhile_digits_append [OF nd, of "c # t'"]
      by simp_all
    with Cons show ?thesis
      by (simp add: signedInteger_def del: takeWhile.simps dropWhile.simps)
  qed
qed

lemma exponentPart_append:
  assumes "\<forall>c\<in>set w. isJsSpace c"
  shows "exponentPart (t @ w) = (fst (exponentPart t), snd (exponentPart t) @ w)"
proof (cases t)
  case Nil
  show ?thesis
  proof (cases w)
    case Nil
    with \<open>t = []\<close> show ?thesis by (simp add: exponentPart_def)
  next
    case (Cons c w')
    then have "isJsSpace c" using assms by simp
    then have "c \<noteq> CHR ''e''" "c \<noteq> CHR ''E''"
      using space_not_literal by blast+
    with Cons \<open>t = []\<close> show ?thesis by (simp add: exponentPart_def)
  qed
next
  case (Cons c t')
  then show ?thesis
    using signedInteger_append [OF assms, of t']
    by (auto simp: exponentPart_def split: option.splits)
qed

lemma fractionPart_append:
  assumes "\<forall>c\<in>set w. isJsSpace c"
  shows "fractionPart (t @ w) = map_option (\<lambda>(fp, r). (fp, r @ w)) (fractionPart t)"
proof -
  have nd: "\<forall>c\<in>set w. \<not> isDigit c"
    using assms space_not_digit by blast
  show ?thesis
  proof (cases t)
    case Nil
    show ?thesis
    proof (cases w)
      case Nil
      with \<open>t = []\<close> show ?thesis by (simp add: fractionPart_def)
    next
      case (Cons c w')
      then have "isJsSpace c" using assms by simp
      then have "c \<noteq> CHR ''.''"
        using space_not_literal by blast
      with Cons \<open>t = []\<close> show ?thesis by (simp add: fractionPart_def)
    qed
  next
    case (Cons c t')
    then show ?thesis
      using takeWhile_digits_append [OF nd, of t'] dropWhile_digits_append [OF nd, of t']
      by (simp add: fractionPart_def)
  qed
qed

lemma finishDecimal_append:
  assumes "\<forall>c\<in>set w. isJsSpace c"
  shows "finishDecimal ip fp (r @ w) = map_option (\<lambda>(v, r). (v, r @ w)) (finishDecimal ip fp r)"
  by (simp add: finishDecimal_def exponentPart_append [OF assms])

lemma strip_prefix_append:
  "\<forall>c\<in>set w. c \<notin> set p \<Longrightarrow>
     strip_prefix p (t @ w) = map_option (\<lambda>r. r @ w) (strip_prefix p t)"
proof (induction p t rule: strip_prefix.induct)
  case (1 s)
  show ?case by simp
next
  case (2 p ps)
  then show ?case by (cases w) auto
next
  case (3 p ps c cs)
  then show ?case by auto
qed

lemma space_not_in_Infinity: "isJsSpace c \<Longrightarrow> c \<notin> set ''Infinity''"
  by (auto simp: isJsSpace_def)

lemma strUnsignedDecimalLiteral_append:
  assumes "\<forall>c\<in>set w. isJsSpace c"
  shows "strUnsignedDecimalLiteral (t @ w) =
           map_option (\<lambda>(v, r). (v, r @ w)) (strUnsignedDecimalLiteral t)"
proof -
  have nd: "\<forall>c\<in>set w. \<not> isDigit c"
    using assms space_not_digit by blast
  have ni: "\<forall>c\<in>set w. c \<notin> set ''Infinity''"
    using assms space_not_in_Infinity by blast
  show ?thesis
    unfolding strUnsignedDecimalLiteral_def
    by (simp only: strip_prefix_append [OF ni] takeWhile_digits_append [OF nd]
          dropWhile_digits_append [OF nd] fractionPart_append [OF assms])
      (auto simp: finishDecimal_append [OF assms] split: option.splits)
qed

lemma strDecimalLiteral_append:
  assumes "\<forall>c\<in>set w. isJsSpace c"
  shows "strDecimalLiteral (t @ w) = map_option (\<lambda>(v, r). (v, r @ w)) (strDecimalLiteral t)"
proof (cases t)
  case Nil
  show ?thesis
  proof (cases w)
    case Nil
    with \<open>t = []\<close> show ?thesis by (simp add: strDecimalLiteral_def)
  next
    case (Cons c w')
    then have c: "isJsSpace c" using assms by simp
    then have "c \<noteq> CHR ''-''" "c \<noteq> CHR ''+''"
      using space_not_literal by blast+
    moreover have "strUnsignedDecimalLiteral ([] @ w) = None"
      by (simp only: strUnsignedDecimalLiteral_append [OF assms])
        (simp add: strUnsignedDecimalLiteral_def fractionPart_def finishDecimal_def)
    ultimately show ?thesis
      using Cons \<open>t = []\<close> by (simp add: strDecimalLiteral_def)
  qed
next
  case (Cons c t')
  then show ?thesis
    using strUnsignedDecimalLiteral_append [OF assms, of t']
      strUnsignedDecimalLiteral_append [OF assms, of "c # t'"]
    by (auto simp: strDecimalLiteral_def option.map_comp comp_def split_def)
qed

lemma trimStart_split: "\<exists>w. trimStart s = trim s @ w \<and> (\<forall>c\<in>set w. isJsSpace c)"
proof -
  define t where "t = trimStart s"
  have "rev t = takeWhile isJsSpace (rev t) @ dropWhile isJsSpace (rev t)"
    by simp
  then have "t = rev (dropWhile isJsSpace (rev t)) @ rev (takeWhile isJsSpace (rev t))"
    by (metis rev_append rev_rev_ident)
  moreover have "\<forall>c\<in>set (rev (takeWhile isJsSpace (rev t))). isJsSpace c"
    by (auto dest: set_takeWhileD)
  ultimately show ?thesis
    unfolding t_def trim_def trimStart_def by blast
qed

lemma trimStart_trim: "trimStart (trim s) = trim s"
proof (cases "trim s")
  case Nil
  then show ?thesis by (simp add: trimStart_def)
next
  case (Cons c cs)
  obtain w where w: "trimStart s = trim s @ w"
    using trimStart_split by blast
  then have ne: "dropWhile isJsSpace s \<noteq> []" and hd: "hd (dropWhile isJsSpace s) = c"
    using Cons by (auto simp: trimStart_def)
  have "\<not> isJsSpace c"
    using hd_dropWhile [OF ne] hd by simp
  with Cons show ?thesis
    by (simp add: trimStart_def)
qed

text \<open>The prompt validates the trimmed input and the flow converts the input as typed:
  both parse to the same number.\<close>

lemma parseFloat_trim: "parseFloat (trim s) = parseFloat s"
proof -
  obtain w where w: "trimStart s = trim s @ w" "\<forall>c\<in>set w. isJsSpace c"
    using trimStart_split by blast
  show ?thesis
    unfolding parseFloat_def trimStart_trim w(1)
    by (simp add: strDecimalLiteral_append [OF w(2)] split: option.splits)
qed

section \<open>Evaluation\<close>

lemma floor_numeral_div:
  "\<lfloor>(numeral a :: rat) / numeral b\<rfloor> = numeral a div numeral b"
  using floor_divide_of_int_eq [of "numeral a" "numeral b", where ?'a = rat] by simp

lemma ceiling_numeral_div:
  "\<lceil>(numeral a :: rat) / numeral b\<rceil> = - ((- numeral a) div numeral b)"
  using ceiling_divide_eq_div [of "numeral a" "numeral b", where ?'a = rat] by simp

lemmas parse_simps =
  parseFloat_def trimStart_def isJsSpace_def strDecimalLiteral_def
  strUnsignedDecimalLiteral_def fractionPart_def finishDecimal_def exponentPart_def
  signedInteger_def decimalValue_def digitsVal_def digitVal_def isDigit_def numberValue_def

lemmas round_simps =
  round_double_def overflow_def round_pos_def round_at_def round_half_even_def
  nearest_even_def ilog2_def compute_floorlog pow2_def floor_numeral_div ceiling_numeral_div

section \<open>Traces\<close>

lemma calls_of_append: "calls_of (xs @ ys) = calls_of xs @ calls_of ys"
  by (induction xs rule: calls_of.induct) simp_all

lemma calls_of_simpleLog: "calls_of (simpleLog c msg) = []"
  by (simp add: simpleLog_def)

lemma calls_of_promptInput: "calls_of (fst (promptInput validate xs)) = []"
  by (induction xs) (simp_all split: verdict.splits)


lemma promptInput_accepted:
  "snd (promptInput validate xs) = Some x \<Longrightarrow> validate x = Accept \<and> x \<in> set xs"
  by (induction xs) (auto split: verdict.splits)

section \<open>Concrete amounts\<close>





lemma parseFloat_12_5: "parseFloat ''12.5'' = Fin (25 / 2)"
  by (simp add: parse_simps) (simp add: round_simps)

lemma parseFloat_tiny:
  "parseFloat ''0.0000000001'' = Fin (7737125245533627 / 77371252455336267181195264)"
  by (simp add: parse_simps) (simp add: round_simps)



lemma amountInBaseUnits_12_5: "amountInBaseUnits ''12.5'' = Fin 12500000"
  by (simp add: amountInBaseUnits_def parseFloat_12_5) (simp add: round_simps)


lemma lamportsOf_tiny: "lamportsOf ''0.0000000001'' = Fin 0"
  by (simp add: lamportsOf_def LAMPORTS_PER_SOL_def parseFloat_tiny) (simp add: round_simps)

text \<open>The scenarios of the specification: 12.5 USDC and 0.001 SOL.\<close>

lemma parseFloat_0_001: "parseFloat ''0.001'' = Fin (1152921504606847 / 1152921504606846976)"
  by (simp add: parse_simps) (simp add: round_simps)

lemma lamportsOf_0_001: "lamportsOf ''0.001'' = Fin 1000000"
  by (simp add: lamportsOf_def LAMPORTS_PER_SOL_def parseFloat_0_001) (simp add: round_simps)

lemma trim_simps:
  "trim ''-5'' = ''-5''" "trim ''abc'' = ''abc''" "trim ''0.3'' = ''0.3''"
  "trim ''0.0000000001'' = ''0.0000000001''" "trim ''ADDR2'' = ''ADDR2''"
  by (simp_all add: trim_def isJsSpace_def)


text \<open>The USDC flow on the example inputs, for an amount the prompt accepts.\<close>

lemma amountValidate_12_5: "amountValidate USDC ''12.5'' = Accept"
  by (simp add: amountValidate_def trim_def isJsSpace_def validateAmount_def parseFloat_12_5
        isNaN_def js_le_def js_gt_def)

lemmas transferTokens_simps =
  transferTokens_def addressValidate_def validateSolanaAddress_def trim_simps
  amountValidate_12_5 accountAddressOf_def js_or_def caught_def transferTokensTry_def
  signAndSubmit_def signCall_def paymentIntentRequest_def amountInBaseUnits_12_5 nullish_def
  optget_def simpleLog_def transferOutcome_def sendSignature_def getExplorerUrl_def cluster_def
  default_ctx_def paying_io_def example_transfer_io_def

section \<open>Flows without a session\<close>

text \<open>
  Claim C2.  In every state in which no session is stored (\<open>userSession\<close> is \<open>null\<close>),
  the balance flow, the USDC transfer flow and the SOL transfer flow print
  "Please log in first." and return at once: the state is unchanged and the trace holds
  nothing but that line, so no operation of \<open>gridClient\<close> or \<open>solanaConnection\<close> is
  invoked.
\<close>

theorem no_session_short_circuit:
  assumes "userSession st = JNull"
  shows "checkBalance c st bio = (st, [ConsoleLog [Txt ''Please log in first.'']], Returned)
       \<and> transferTokens c st tio = (st, [ConsoleLog [Txt ''Please log in first.'']], Returned)
       \<and> transferSOLArbitrary c st sio = (st, [ConsoleLog [Txt ''Please log in first.'']], Returned)
       \<and> calls_of (fst (snd (checkBalance c st bio))) = []
       \<and> calls_of (fst (snd (transferTokens c st tio))) = []
       \<and> calls_of (fst (snd (transferSOLArbitrary c st sio))) = []"
  using assms by (simp add: checkBalance_def transferTokens_def transferSOLArbitrary_def)

theorem no_session_short_circuit_witness:
  "userSession initial_state = JNull
   \<and> checkBalance default_ctx initial_state example_balance_io
       = (initial_state, [ConsoleLog [Txt ''Please log in first.'']], Returned)
   \<and> calls_of (fst (snd (transferTokens default_ctx initial_state example_transfer_io))) = []
   \<and> calls_of (fst (snd (transferSOLArbitrary default_ctx initial_state example_sol_io))) = []"
proof -
  have h: "userSession initial_state = JNull"
    by (simp add: initial_state_def)
  show ?thesis
    using h no_session_short_circuit [OF h, of default_ctx example_balance_io example_transfer_io
        example_sol_io]
    by simp
qed

section \<open>Validation of amounts\<close>






text \<open>What the prompt accepts: the strings of which \<open>parseFloat\<close> makes a positive number
  of at most the token's maximum.\<close>

lemma parseFloat_blank: "trim s = [] \<Longrightarrow> parseFloat s = NaN"
  using parseFloat_trim [of s] by (simp add: parseFloat_def trimStart_def strDecimalLiteral_def)

lemma amountValidate_accepts_iff:
  "amountValidate t s = Accept \<longleftrightarrow>
     (\<exists>a. parseFloat s = Fin a \<and> 0 < a \<and> a \<le> (case t of USDC \<Rightarrow> 1000000 | SOL \<Rightarrow> 10000))"
proof (cases "trim s = []")
  case True
  then show ?thesis
    by (simp add: amountValidate_def parseFloat_blank)
next
  case False
  then show ?thesis
    using validateAmount_valid_iff [of "trim s" t] by (simp add: amountValidate_def parseFloat_trim)
qed

subsection \<open>Decimal numbers\<close>




lemma digit_not_sign: "isDigit ch \<Longrightarrow> ch \<noteq> CHR ''-'' \<and> ch \<noteq> CHR ''+''"
  by (auto simp: isDigit_def)




















section \<open>Conversion of amounts to base units\<close>





text \<open>Where the exact product is an integer, the conversion is that integer.\<close>

lemma floor_of_product_exact:
  assumes "a * f = of_int k" and "0 < k" and "k < 2 ^ 53"
  shows "Math_floor (js_mul (Fin a) (Fin f)) = Fin (of_int k)"
  using round_double_of_int [OF assms(2,3)] by (simp add: assms(1))







section \<open>A transfer of zero lamports\<close>

lemma amountValidate_tiny: "amountValidate SOL ''0.0000000001'' = Accept"
  by (simp add: amountValidate_def trim_simps validateAmount_def parseFloat_tiny isNaN_def
        js_le_def js_gt_def)

lemma valid_tiny: "valid (validateAmount ''0.0000000001'' SOL)"
  by (simp add: validateAmount_def parseFloat_tiny isNaN_def js_le_def js_gt_def)

lemma zero_lamport_calls:
  "calls_of (fst (snd (transferSOLArbitrary default_ctx authenticated zero_lamport_io)))
     = [GetLatestBlockhash,
        PrepareArbitraryTransaction (JStr ''ADDR1'')
          \<lparr>fromPubkey = JStr ''ADDR1'', toPubkey = ''ADDR2'', lamports = Fin 0,
           recentBlockhash = JStr ''HASH'', feePayer = JStr ''ADDR1''\<rparr>,
        SignAndSend (JArr [JStr ''secret'']) (JArr [JObj [(''provider'', JStr ''privy'')]])
          (JObj [(''transaction'', JStr ''PREPARED'')]) (JStr ''ADDR1'')]"
  by (simp add: transferSOLArbitrary_def default_ctx_def authenticated_def example_session_def
        zero_lamport_io_def example_sol_io_def addressValidate_def validateSolanaAddress_def
        trim_simps amountValidate_tiny accountAddressOf_def js_or_def caught_def
        transferSOLTry_def prepareAndExecute_def executePrepared_def transferTransaction_def
        lamportsOf_tiny signAndSendCall_def nullish_def simpleLog_def transferOutcome_def
        signAndSendSignature_def getExplorerUrl_def cluster_def)

text \<open>
  Claim C9.  The amount "0.0000000001" is accepted by the SOL validation, its conversion
  to lamports is 0, and the SOL transfer flow run with it builds a transfer of 0 lamports
  and submits it (it is prepared, then signed and sent); validation accepts every string
  that parses to a positive number of at most 10000, however small.
\<close>

theorem zero_lamport_transfer:
  "valid (validateAmount ''0.0000000001'' SOL)
   \<and> amountValidate SOL ''0.0000000001'' = Accept
   \<and> lamportsOf ''0.0000000001'' = Fin 0
   \<and> lamports (transferTransaction st r ''0.0000000001'' latest) = Fin 0
   \<and> calls_of (fst (snd (transferSOLArbitrary default_ctx authenticated zero_lamport_io)))
       = [GetLatestBlockhash,
          PrepareArbitraryTransaction (JStr ''ADDR1'')
            \<lparr>fromPubkey = JStr ''ADDR1'', toPubkey = ''ADDR2'', lamports = Fin 0,
             recentBlockhash = JStr ''HASH'', feePayer = JStr ''ADDR1''\<rparr>,
          SignAndSend (JArr [JStr ''secret'']) (JArr [JObj [(''provider'', JStr ''privy'')]])
            (JObj [(''transaction'', JStr ''PREPARED'')]) (JStr ''ADDR1'')]
   \<and> (parseFloat s = Fin a \<and> 0 < a \<and> a \<le> 10000 \<longrightarrow> valid (validateAmount s SOL))"
proof -
  have "parseFloat s = Fin a \<and> 0 < a \<and> a \<le> 10000 \<longrightarrow> valid (validateAmount s SOL)"
    by (simp add: validateAmount_valid_iff)
  then show ?thesis
    by (simp add: valid_tiny amountValidate_tiny lamportsOf_tiny transferTransaction_def
          zero_lamport_calls)
qed

theorem zero_lamport_transfer_witness:
  "parseFloat ''0.0000000001'' = Fin (7737125245533627 / 77371252455336267181195264)
   \<and> valid (validateAmount ''0.0000000001'' SOL)
   \<and> lamports (transferTransaction authenticated ''ADDR2'' ''0.0000000001'' JNull) = Fin 0"
  using zero_lamport_transfer [of authenticated "''ADDR2''" JNull "''0.0000000001''"
      "7737125245533627 / 77371252455336267181195264"]
  by (simp add: parseFloat_tiny valid_tiny)

section \<open>Extraction of the transaction signature\<close>









section \<open>The signing context of a USDC transfer\<close>

lemma calls_of_transferOutcome: "calls_of (transferOutcome c token amt rcp sig) = []"
  by (simp add: transferOutcome_def calls_of_append calls_of_simpleLog unexpectedFormat_def)

lemma calls_of_caught: "calls_of (caught label r) = calls_of (fst r)"
  by (simp add: caught_def calls_of_append split: option.splits)

lemma calls_of_signAndSubmit:
  "set (calls_of (fst (signAndSubmit c st io rcp amt payload)))
     \<subseteq> {signCall st payload} \<union> {k. \<exists>p a. k = Send p a}"
  by (auto simp: signAndSubmit_def calls_of_append calls_of_simpleLog calls_of_transferOutcome
        split: result.splits)

lemma calls_of_transferTokensTry:
  "set (calls_of (fst (transferTokensTry c st io rcp amt)))
     \<subseteq> {k. \<exists>p. k = signCall st p} \<union> {k. \<exists>p a. k = Send p a}"
  using calls_of_signAndSubmit [of c st io rcp amt]
  by (auto simp: transferTokensTry_def split: result.splits)

lemma calls_of_transferTokens:
  "set (calls_of (fst (snd (transferTokens c st io))))
     \<subseteq> {k. \<exists>p. k = signCall st p} \<union> {k. \<exists>p a. k = Send p a}
       \<union> {k. \<exists>a q. k = CreatePaymentIntent a q}"
  using calls_of_transferTokensTry [of c st io]
  by (auto simp: transferTokens_def calls_of_append calls_of_simpleLog calls_of_promptInput
        calls_of_caught split: option.splits)

text \<open>
  Claim C7, as amended.  Whenever the USDC transfer flow signs, the signing context it
  passes is the session's \<open>session\<close> field when that field is truthy, and the session's
  \<open>authentication\<close> field otherwise: when \<open>session\<close> is absent, and also when it is
  present with a falsy value (\<open>null\<close>, \<open>false\<close>, \<open>0\<close>, \<open>NaN\<close> or the empty string).
\<close>

theorem signing_context:
  "Sign k sctx p \<in> set (calls_of (fst (snd (transferTokens c st io)))) \<longrightarrow>
     k = sessionSecrets st
     \<and> sctx = (if truthy (get (userSession st) ''session'') then get (userSession st) ''session''
               else get (userSession st) ''authentication'')"
  using calls_of_transferTokens [of c st io]
  by (auto simp: signCall_def js_or_def)

lemma paying_calls:
  "calls_of (fst (snd (transferTokens default_ctx authenticated paying_io)))
     = [CreatePaymentIntent (JStr ''ADDR1'')
          \<lparr>amount = Fin 12500000, grid_user_id = JStr ''user-1'',
           source_account = JStr ''ADDR1'', source_currency = ''usdc'',
           source_payment_rail = ''smart_account'', destination_address = ''ADDR2'',
           destination_currency = ''usdc'', destination_payment_rail = ''smart_account''\<rparr>,
        Sign (JArr [JStr ''secret'']) (JArr [JObj [(''provider'', JStr ''privy'')]])
          (JStr ''PAYLOAD''),
        Send (JStr ''SIGNED'') (JStr ''ADDR1'')]"
  by (simp add: transferTokens_simps authenticated_def example_session_def)

theorem signing_context_witness:
  "Sign (JArr [JStr ''secret'']) (JArr [JObj [(''provider'', JStr ''privy'')]]) (JStr ''PAYLOAD'')
     \<in> set (calls_of (fst (snd (transferTokens default_ctx authenticated paying_io))))
   \<and> get (userSession authenticated) ''session'' = JUndefined
   \<and> get (userSession authenticated) ''authentication'' = JArr [JObj [(''provider'', JStr ''privy'')]]"
proof -
  have m: "Sign (JArr [JStr ''secret'']) (JArr [JObj [(''provider'', JStr ''privy'')]])
      (JStr ''PAYLOAD'') \<in> set (calls_of (fst (snd (transferTokens default_ctx authenticated paying_io))))"
    by (simp add: paying_calls)
  have g: "get (userSession authenticated) ''session'' = JUndefined"
    "get (userSession authenticated) ''authentication'' = JArr [JObj [(''provider'', JStr ''privy'')]]"
    by (simp_all add: authenticated_def example_session_def)
  show ?thesis
    using signing_context [of "JArr [JStr ''secret'']"
        "JArr [JObj [(''provider'', JStr ''privy'')]]" "JStr ''PAYLOAD''" default_ctx authenticated
        paying_io] m g
    by blast
qed

text \<open>
  The claim as stated fails on a session whose \<open>session\<close> field is present and holds the
  empty string: the flow signs with the \<open>authentication\<close> field.
\<close>

theorem signing_context_counterexample:
  "map_of [(''address'', JStr ''ADDR1''), (''session'', JStr []), (''authentication'', JStr ''AUTH'')]
     ''session'' = Some (JStr [])
   \<and> calls_of (fst (snd (transferTokens default_ctx falsy_session paying_io)))
     = [CreatePaymentIntent (JStr ''ADDR1'')
          \<lparr>amount = Fin 12500000, grid_user_id = JUndefined,
           source_account = JStr ''ADDR1'', source_currency = ''usdc'',
           source_payment_rail = ''smart_account'', destination_address = ''ADDR2'',
           destination_currency = ''usdc'', destination_payment_rail = ''smart_account''\<rparr>,
        Sign (JArr [JStr ''secret'']) (JStr ''AUTH'') (JStr ''PAYLOAD''),
        Send (JStr ''SIGNED'') (JStr ''ADDR1'')]"
  by (simp add: transferTokens_simps falsy_session_def)

section \<open>The balance printed for a token\<close>



lemma Math_pow10_6: "Math_pow10 c (Fin 6) = Fin 1000000"
  by (simp add: Math_pow10_def)



lemma ToNumber_digits:
  "StringToNumber ''12500000'' = Fin 12500000" "StringToNumber ''5'' = Fin 5"
  "StringToNumber ''5000000'' = Fin 5000000"
  by (simp_all add: StringToNumber_def strNumericLiteral_def nonDecimalIntegerLiteral_def trim_def
        parse_simps)
    (simp_all add: round_simps)

lemma quotients:
  "round_double (25 / 2) = Fin (25 / 2)"
  "round_double 5 = Fin 5"
  "round_double (1 / 200000) = Fin (5902958103587057 / 1180591620717411303424)"
  by (simp_all add: round_simps)



text \<open>
  The number 0 is falsy as well, and \<open>||\<close> passes over it the same way: a token entry
  whose \<open>amount_decimal\<close> is 0 is printed with the computed value, and one whose
  \<open>decimals\<close> is 0 is divided by \<open>10^6\<close>.  The amended claim says nothing of these two
  cases.
\<close>

lemma zero_fields:
  "tokenBalance default_ctx zero_balance_token = JNum NaN"
  "tokenBalance default_ctx no_decimals_token
     = JNum (Fin (5902958103587057 / 1180591620717411303424))"
  by (simp_all add: tokenBalance_def computedBalance_def zero_balance_token_def
        no_decimals_token_def js_or_def ToNumber_digits Math_pow10_6 quotients)

section \<open>A failed OTP verification\<close>









section \<open>A missing API key\<close>

lemma production_selected:
  "GRID_ENVIRONMENT_of env = ''production'' \<longleftrightarrow> env ''GRID_ENVIRONMENT'' = Some ''production''"
  by (auto simp: GRID_ENVIRONMENT_of_def envOr_def split: option.splits)

text \<open>
  Claim C8.  When the API key of the selected environment is absent
  (\<open>GRID_PRODUCTION_API_KEY\<close> when \<open>GRID_ENVIRONMENT\<close> is "production",
  \<open>GRID_SANDBOX_API_KEY\<close> otherwise), the process prints four lines on the error stream
  that name the environment and the variable to set, and exits with code 1; the trace
  holds nothing else, so no client handle is constructed.
\<close>

theorem missing_api_key_exits:
  assumes "(if env ''GRID_ENVIRONMENT'' = Some ''production'' then env ''GRID_PRODUCTION_API_KEY''
            else env ''GRID_SANDBOX_API_KEY'') = None"
  shows "program env argv lib choices
      = (initial_state,
         [ConsoleError [Txt ''ERROR: Missing API key for environment:'',
                        Upper (GRID_ENVIRONMENT_of env)],
          ConsoleError [Txt ''Please set the following environment variable:''],
          ConsoleError [Txt ''   '',
            Txt (if env ''GRID_ENVIRONMENT'' = Some ''production'' then ''GRID_PRODUCTION_API_KEY''
                 else ''GRID_SANDBOX_API_KEY'')],
          ConsoleError [Txt ''Copy .env.example to .env and add your API keys'']],
         Exited 1)
    \<and> filter constructs (fst (snd (program env argv lib choices))) = []"
proof -
  have "missingApiKey env"
    using assms by (simp add: missingApiKey_def GRID_API_KEY_of_def production_selected)
  then show ?thesis
    by (simp add: program_def missingKeyReport_def production_selected)
qed

theorem missing_api_key_exits_witness:
  "(if Map.empty ''GRID_ENVIRONMENT'' = Some ''production''
    then Map.empty ''GRID_PRODUCTION_API_KEY'' else Map.empty ''GRID_SANDBOX_API_KEY'')
     = (None :: string option)
   \<and> program Map.empty [] example_library [Exit]
      = (initial_state,
         [ConsoleError [Txt ''ERROR: Missing API key for environment:'', Upper ''sandbox''],
          ConsoleError [Txt ''Please set the following environment variable:''],
          ConsoleError [Txt ''   '', Txt ''GRID_SANDBOX_API_KEY''],
          ConsoleError [Txt ''Copy .env.example to .env and add your API keys'']],
         Exited 1)"
proof -
  have h: "(if Map.empty ''GRID_ENVIRONMENT'' = Some ''production''
    then Map.empty ''GRID_PRODUCTION_API_KEY'' else Map.empty ''GRID_SANDBOX_API_KEY'')
     = (None :: string option)"
    by simp
  have e: "GRID_ENVIRONMENT_of Map.empty = ''sandbox''"
    by (simp add: GRID_ENVIRONMENT_of_def envOr_def)
  show ?thesis
    using missing_api_key_exits [OF h, of "[]" example_library "[Exit]"] e
    by simp
qed

text \<open>With the key set, the program goes on to construct both handles.\<close>

lemma with_api_key_constructs:
  "take 3 (fst (snd (program [''GRID_SANDBOX_API_KEY'' \<mapsto> ''key''] [] example_library [Exit])))
     = [ConsoleLog [Txt ''Grid CLI - '', Upper ''sandbox'', Txt '' Environment''],
        NewGridClient ''key'' ''sandbox'' ''https://grid.squads.xyz'',
        NewConnection ''devnet'']"
  by (simp add: program_def missingApiKey_def GRID_API_KEY_of_def GRID_ENVIRONMENT_of_def
        GRID_BASE_URL_of_def envOr_def main_def initializeGridClient_def DEBUG_MODE_of_def)

section \<open>Who writes the authentication state\<close>

lemma checkBalance_frame: "fst (checkBalance c st io) = st"
  by (simp add: checkBalance_def)

lemma transferTokens_frame: "fst (transferTokens c st io) = st"
  by (simp add: transferTokens_def split: option.splits)

lemma transferSOLArbitrary_frame: "fst (transferSOLArbitrary c st io) = st"
  by (simp add: transferSOLArbitrary_def split: option.splits)

lemma retryLogin_frame:
  "fst (retryLogin c st io before) = st
   \<or> (\<exists>n. fst (retryLogin c st io before) = fst (verifyOtp c (email io) n st (otp_step io)))"
  by (auto simp: retryLogin_def otpFlow_def split: result.splits)

lemma registrationFailed_frame:
  "fst (registrationFailed c st io err before) = st
   \<or> (\<exists>n. fst (registrationFailed c st io err before)
            = fst (verifyOtp c (email io) n st (otp_step io)))"
  using retryLogin_frame [of c st io]
  by (auto simp: registrationFailed_def split: sum.splits bool.splits)

lemma authFailed_frame:
  "fst (authFailed c st io err before) = st
   \<or> (\<exists>n. fst (authFailed c st io err before) = fst (verifyOtp c (email io) n st (otp_step io)))"
  using registrationFailed_frame [of c st io]
  by (auto simp: authFailed_def otpFlow_def split: sum.splits bool.splits result.splits)

lemma loginOrRegister_frame:
  "fst (loginOrRegister c st io) = st
   \<or> (\<exists>n. fst (loginOrRegister c st io) = fst (verifyOtp c (email io) n st (otp_step io)))"
  using authFailed_frame [of c st io]
  by (auto simp: loginOrRegister_def otpFlow_def split: result.splits)

lemma runChoice_frame: "\<not> isLogin ch \<Longrightarrow> fst (runChoice c st ch) = st"
  by (cases ch)
    (simp_all add: checkBalance_frame transferTokens_frame transferSOLArbitrary_frame)

lemma mainMenu_frame: "\<forall>ch\<in>set choices. \<not> isLogin ch \<Longrightarrow> fst (mainMenu c st choices) = st"
proof (induction choices)
  case Nil
  show ?case by simp
next
  case (Cons ch choices)
  then have r: "fst (runChoice c st ch) = st"
    by (simp add: runChoice_frame)
  show ?case
    using Cons r by (cases ch) simp_all
qed

text \<open>
  Claim C10.  The balance flow leaves \<open>userSession\<close> and \<open>sessionSecrets\<close> as they
  were, whatever the response.  So do both transfer flows, and so does the menu as long as
  login is not chosen; the login flow leaves the state as it was or as its OTP
  verification step left it.  Only the OTP verification step writes the two variables.
\<close>

theorem authentication_state_frame:
  "userSession (fst (checkBalance c st bio)) = userSession st
   \<and> sessionSecrets (fst (checkBalance c st bio)) = sessionSecrets st
   \<and> fst (transferTokens c st tio) = st
   \<and> fst (transferSOLArbitrary c st sio) = st
   \<and> (fst (loginOrRegister c st lio) = st
      \<or> (\<exists>n. fst (loginOrRegister c st lio) = fst (verifyOtp c (email lio) n st (otp_step lio))))
   \<and> ((\<forall>ch\<in>set choices. \<not> isLogin ch) \<longrightarrow> fst (mainMenu c st choices) = st)"
  using loginOrRegister_frame [of c st lio] mainMenu_frame [of choices c st]
  by (simp add: checkBalance_frame transferTokens_frame transferSOLArbitrary_frame)

theorem authentication_state_frame_witness:
  "userSession (fst (checkBalance default_ctx authenticated usdc_balance_io)) = example_session
   \<and> sessionSecrets (fst (checkBalance default_ctx authenticated usdc_balance_io)) = JArr [JStr ''secret'']
   \<and> fst (mainMenu default_ctx authenticated [Balance usdc_balance_io, Transfer paying_io, Exit])
       = authenticated"
proof -
  have h: "\<forall>ch\<in>set [Balance usdc_balance_io, Transfer paying_io, Exit]. \<not> isLogin ch"
    by simp
  have a: "userSession authenticated = example_session"
    "sessionSecrets authenticated = JArr [JStr ''secret'']"
    by (simp_all add: authenticated_def)
  show ?thesis
    using authentication_state_frame [of default_ctx authenticated usdc_balance_io paying_io
        example_sol_io "\<lparr>email = ''a@example.com'', initAuth_result = Throws JNull,
          createAccount_result = Throws JNull, retry_initAuth_result = Throws JNull,
          otp_step = failing_otp_io\<rparr>" "[Balance usdc_balance_io, Transfer paying_io, Exit]"] h a
    by simp
qed

end
